theory Spec2Isabelle
  imports Complex_Main "HOL-Library.Log_Nat" "HOL-Library.Multiset"
begin

section \<open>JavaScript strings and numbers, as far as the SDK uses them\<close>

text \<open>
  A string is a list of 8-bit code units (\<open>char\<close>): the value of an HTTP header is a
  byte string, and every string operation of the SDK (\<open>split\<close>, \<open>endsWith\<close>,
  \<open>includes\<close>, \<open>replace\<close>) works code unit by code unit.
\<close>

datatype jsnum = NaN | NegInf | Fin rat | PosInf

text \<open>\<open>Fin 0\<close> stands for both zeros: the SDK only compares numbers, and \<open>-0\<close> and \<open>+0\<close> compare equal.\<close>

fun js_lt :: "jsnum \<Rightarrow> jsnum \<Rightarrow> bool" where
  "js_lt NaN y = False"
| "js_lt x NaN = False"
| "js_lt NegInf NegInf = False"
| "js_lt NegInf y = True"
| "js_lt x NegInf = False"
| "js_lt PosInf y = False"
| "js_lt (Fin a) PosInf = True"
| "js_lt (Fin a) (Fin b) = (a < b)"

fun ToNumber :: "jsnum option \<Rightarrow> jsnum" where
  "ToNumber None = NaN"
| "ToNumber (Some n) = n"

text \<open>
  The relational operators on operands that are numbers or \<open>undefined\<close>: the operands are
  converted by \<open>ToNumber\<close>, and every comparison with \<open>NaN\<close> is false.
\<close>

definition op_lt :: "jsnum option \<Rightarrow> jsnum option \<Rightarrow> bool" where
  "op_lt a b = js_lt (ToNumber a) (ToNumber b)"

definition op_gt :: "jsnum option \<Rightarrow> jsnum option \<Rightarrow> bool" where
  "op_gt a b = js_lt (ToNumber b) (ToNumber a)"

definition op_ge :: "jsnum option \<Rightarrow> jsnum option \<Rightarrow> bool" where
  "op_ge a b =
     (ToNumber a \<noteq> NaN \<and> ToNumber b \<noteq> NaN \<and> \<not> js_lt (ToNumber a) (ToNumber b))"

subsection \<open>Rounding a mathematical value to a double\<close>

text \<open>
  \<open>Number\<close> yields the double nearest to the mathematical value of the literal, ties to the
  even significand. For a positive \<open>x\<close> with \<open>2^e \<le> x < 2^(e+1)\<close> the doubles around \<open>x\<close> are
  the multiples of \<open>2^(e-52)\<close>, or of \<open>2^-1074\<close> in the subnormal range; a result of \<open>2^1024\<close>
  or more is \<open>Infinity\<close>. The exact value is rounded, as engines do; the standard also lets
  an engine round a literal of more than 20 significant digits from its first 20 digits.
\<close>

definition round_half_even :: "rat \<Rightarrow> int" where
  "round_half_even x =
     (let f = \<lfloor>x\<rfloor>; r = x - of_int f
      in if r < 1 / 2 then f else if 1 / 2 < r then f + 1 else if even f then f else f + 1)"

text \<open>\<open>ilog2 x\<close> is the \<open>e\<close> with \<open>2^e \<le> x < 2^(e+1)\<close>, for a positive \<open>x\<close>.\<close>

definition ilog2 :: "rat \<Rightarrow> int" where
  "ilog2 x =
     (let (n, d) = quotient_of x; c = bitlen n - bitlen d
      in if 2 powi c \<le> x then c else c - 1)"

definition round_double_pos :: "rat \<Rightarrow> jsnum" where
  "round_double_pos x =
     (let e = max (ilog2 x) (- 1022);
          ulp = 2 powi (e - 52);
          v = of_int (round_half_even (x / ulp)) * ulp
      in if 2 powi 1024 \<le> v then PosInf else Fin v)"

fun js_neg :: "jsnum \<Rightarrow> jsnum" where
  "js_neg NaN = NaN"
| "js_neg NegInf = PosInf"
| "js_neg PosInf = NegInf"
| "js_neg (Fin a) = Fin (- a)"

definition round_double :: "rat \<Rightarrow> jsnum" where
  "round_double x =
     (if x = 0 then Fin 0
      else if 0 < x then round_double_pos x
      else js_neg (round_double_pos (- x)))"

subsection \<open>\<open>Number(string)\<close>: the StringNumericLiteral grammar\<close>

text \<open>
  White space is trimmed; the empty string is 0; then an optionally signed decimal literal
  (\<open>Infinity\<close>, or digits with an optional fraction and exponent) or an unsigned binary,
  octal or hexadecimal integer literal; anything else is \<open>NaN\<close>.
\<close>

definition StrWhiteSpaceChar :: "char \<Rightarrow> bool" where
  "StrWhiteSpaceChar c =
     (c \<in> set [CHR 0x09, CHR 0x0A, CHR 0x0B, CHR 0x0C, CHR 0x0D, CHR 0x20, CHR 0xA0])"

definition trim :: "string \<Rightarrow> string" where
  "trim s = rev (dropWhile StrWhiteSpaceChar (rev (dropWhile StrWhiteSpaceChar s)))"

definition isDecimalDigit :: "char \<Rightarrow> bool" where
  "isDecimalDigit c = (c \<in> set ''0123456789'')"

definition isBinaryDigit :: "char \<Rightarrow> bool" where
  "isBinaryDigit c = (c \<in> set ''01'')"

definition isOctalDigit :: "char \<Rightarrow> bool" where
  "isOctalDigit c = (c \<in> set ''01234567'')"

definition isHexDigit :: "char \<Rightarrow> bool" where
  "isHexDigit c = (c \<in> set ''0123456789abcdefABCDEF'')"

definition digit_value :: "char \<Rightarrow> nat" where
  "digit_value c =
     (if isDecimalDigit c then of_char c - 48
      else if c \<in> set ''abcdef'' then of_char c - 87
      else of_char c - 55)"

definition MV_digits :: "nat \<Rightarrow> string \<Rightarrow> nat" where
  "MV_digits base ds = foldl (\<lambda>n c. base * n + digit_value c) 0 ds"

definition DecimalDigits :: "string \<Rightarrow> nat option" where
  "DecimalDigits s =
     (if s \<noteq> [] \<and> list_all isDecimalDigit s then Some (MV_digits 10 s) else None)"

definition ExponentPart :: "string \<Rightarrow> int option" where
  "ExponentPart s =
     (case s of
        [] \<Rightarrow> Some 0
      | c # cs \<Rightarrow>
          if c = CHR ''e'' \<or> c = CHR ''E'' then
            (case cs of
               [] \<Rightarrow> None
             | d # ds \<Rightarrow>
                 if d = CHR ''+'' then map_option int (DecimalDigits ds)
                 else if d = CHR ''-'' then map_option (\<lambda>n. - int n) (DecimalDigits ds)
                 else map_option int (DecimalDigits cs))
          else None)"

definition StrUnsignedDecimalLiteral :: "string \<Rightarrow> jsnum option" where
  "StrUnsignedDecimalLiteral u =
     (if u = ''Infinity'' then Some PosInf
      else
        let ip = takeWhile isDecimalDigit u;
            r1 = dropWhile isDecimalDigit u;
            (fp, r2) =
              (case r1 of
                 [] \<Rightarrow> ([], [])
               | c # cs \<Rightarrow>
                   if c = CHR ''.''
                   then (takeWhile isDecimalDigit cs, dropWhile isDecimalDigit cs)
                   else ([], r1))
        in if ip = [] \<and> fp = [] then None
           else
             (case ExponentPart r2 of
                None \<Rightarrow> None
              | Some e \<Rightarrow>
                  Some (round_double
                    (of_nat (MV_digits 10 (ip @ fp)) * 10 powi (e - int (length fp))))))"

definition StrDecimalLiteral :: "string \<Rightarrow> jsnum option" where
  "StrDecimalLiteral s =
     (case s of
        [] \<Rightarrow> None
      | c # cs \<Rightarrow>
          if c = CHR ''+'' then StrUnsignedDecimalLiteral cs
          else if c = CHR ''-'' then map_option js_neg (StrUnsignedDecimalLiteral cs)
          else StrUnsignedDecimalLiteral s)"

definition NonDecimalIntegerLiteral :: "string \<Rightarrow> jsnum option" where
  "NonDecimalIntegerLiteral s =
     (case s of
        z # x # ds \<Rightarrow>
          if z = CHR ''0'' \<and> ds \<noteq> [] then
            if (x = CHR ''b'' \<or> x = CHR ''B'') \<and> list_all isBinaryDigit ds
              then Some (round_double (of_nat (MV_digits 2 ds)))
            else if (x = CHR ''o'' \<or> x = CHR ''O'') \<and> list_all isOctalDigit ds
              then Some (round_double (of_nat (MV_digits 8 ds)))
            else if (x = CHR ''x'' \<or> x = CHR ''X'') \<and> list_all isHexDigit ds
              then Some (round_double (of_nat (MV_digits 16 ds)))
            else None
          else None
      | _ \<Rightarrow> None)"

definition Number :: "string \<Rightarrow> jsnum" where
  "Number s =
     (let t = trim s
      in if t = [] then Fin 0
         else
           (case StrDecimalLiteral t of
              Some n \<Rightarrow> n
            | None \<Rightarrow>
                (case NonDecimalIntegerLiteral t of
                   Some n \<Rightarrow> n
                 | None \<Rightarrow> NaN)))"

subsection \<open>\<open>String.prototype.split\<close> with a one-character separator\<close>

fun split :: "char \<Rightarrow> string \<Rightarrow> string list" where
  "split sep [] = [[]]"
| "split sep (c # cs) =
     (if c = sep then [] # split sep cs
      else (case split sep cs of
              [] \<Rightarrow> [[c]]
            | w # ws \<Rightarrow> (c # w) # ws))"

text \<open>Array destructuring: a position past the end of the array yields \<open>undefined\<close>.\<close>

definition element :: "'a list \<Rightarrow> nat \<Rightarrow> 'a option" where
  "element xs i = (if i < length xs then Some (xs ! i) else None)"

section \<open>The API client: version gate\<close>

definition ServerMinVersion :: string where
  "ServerMinVersion = ''0.6.0''"

definition isValidVersion :: "string \<Rightarrow> bool" where
  "isValidVersion version =
     (let vs = map Number (split CHR ''.'' version);
          major = element vs 0; minor = element vs 1; patch = element vs 2;
          ms = map Number (split CHR ''.'' ServerMinVersion);
          minMajor = element ms 0; minMinor = element ms 1; minPatch = element ms 2
      in if op_gt major minMajor then True
         else if op_lt major minMajor then False
         else if op_gt minor minMinor then True
         else if op_lt minor minMinor then False
         else op_ge patch minPatch)"

text \<open>
  A component of a version as the comparisons see it: \<open>NaN\<close> when it is missing or not
  numeric.
\<close>

definition component :: "string \<Rightarrow> nat \<Rightarrow> jsnum" where
  "component v i = ToNumber (element (map Number (split CHR ''.'' v)) i)"

text \<open>The decimal rendering of an integer (\<open>String(n)\<close>), used to write versions \<open>a.b.c\<close>.\<close>

fun decimal_nat :: "nat \<Rightarrow> string" where
  "decimal_nat n =
     (if n < 10 then [''0123456789'' ! n]
      else decimal_nat (n div 10) @ [''0123456789'' ! (n mod 10)])"

definition decimal :: "int \<Rightarrow> string" where
  "decimal i = (if i < 0 then CHR ''-'' # decimal_nat (nat (- i)) else decimal_nat (nat i))"

definition version_string :: "int \<Rightarrow> int \<Rightarrow> int \<Rightarrow> string" where
  "version_string a b c = decimal a @ ''.'' @ decimal b @ ''.'' @ decimal c"

section \<open>Data model\<close>

datatype TunnelType = HTTP | TCP | UDP

record TunnelOptions =
  basic_auth :: "string list option"
  cidr_allow :: "string list option"
  cidr_deny :: "string list option"
  request_header_add :: "string list option"
  request_header_remove :: "string list option"
  response_header_add :: "string list option"
  response_header_remove :: "string list option"
  header_key :: "string list option"

text \<open>
  Objects live in a store and are named by references, so that a method can return
  \<open>this\<close> and a handle can share its client. An optional field (\<open>id?: string\<close>) is an
  \<open>option\<close>: \<open>None\<close> is \<open>undefined\<close>.
\<close>

type_synonym ref = nat

record Lokal =
  baseURL :: string
  basicAuth :: "(string \<times> string) option"
  token :: "string option"

record Tunnel =
  lokal :: ref
  tunnel_id :: "string option"
  name :: string
  tunnel_type :: TunnelType
  local_address :: string
  server_id :: "string option"
  address_tunnel :: "string option"
  address_tunnel_port :: "int option"
  address_public :: "string option"
  address_mdns :: "string option"
  inspect :: bool
  options :: TunnelOptions
  ignoreDuplicateFlag :: bool
  startupBannerFlag :: bool

text \<open>
  What a caller may pass where the code guards against a falsy argument
  (\<open>setLANAddress\<close>, \<open>setPublicAddress\<close>, \<open>setName\<close>): a string, \<open>undefined\<close> or \<open>null\<close>.
\<close>

datatype jsarg = Undefined | Null | Str string

fun truthy :: "jsarg \<Rightarrow> bool" where
  "truthy Undefined = False"
| "truthy Null = False"
| "truthy (Str s) = (s \<noteq> [])"

text \<open>Truthiness of an optional string field: \<open>undefined\<close> and the empty string are falsy.\<close>

fun truthy_field :: "string option \<Rightarrow> bool" where
  "truthy_field None = False"
| "truthy_field (Some s) = (s \<noteq> [])"

datatype error = Error string | TypeError | SyntaxError

subsection \<open>The transport and the console\<close>

text \<open>\<open>JSON.stringify(this)\<close> of a handle: its own fields, with the client object nested under \<open>lokal\<close>.\<close>

datatype json_body = TunnelJSON Tunnel Lokal

record http_request =
  url :: string
  http_method :: string
  headers :: "(string \<times> string) list"
  body :: "json_body option"

text \<open>
  A parsed reply has the shape the daemon documents, \<open>{success, message?, data}\<close>, where
  \<open>data\<close> is a list of \<open>TunnelData\<close>. Of an entry, the fields the SDK reads are kept; each is
  optional, as \<open>TunnelData\<close> declares it.
\<close>

record entry =
  e_id :: "string option"
  e_address_public :: "string option"
  e_address_mdns :: "string option"

record api_response =
  success :: bool
  message :: "string option"
  data :: "entry list"

text \<open>
  A received response, as the client uses it: \<open>headers.get\<close>, \<open>ok\<close> and \<open>json()\<close>, which
  yields the parsed body or rejects.
\<close>

record response =
  headers_get :: "string \<Rightarrow> string option"
  ok :: bool
  json :: "error + api_response"

text \<open>What a rejected \<open>fetch\<close> throws: an \<open>Error\<close> instance with its message, or another value.\<close>

datatype thrown = ErrorInstance string | OtherValue

datatype fetch_outcome = Rejected thrown | Resolved response

datatype color = magenta | blue | cyan | green | red

datatype console_arg = Plain string | Colored color string

datatype console_call = Console_error "console_arg list" | Console_log "console_arg list"

text \<open>
  The environment of a call: how the daemon answers a request, and the number that
  \<open>Math.floor(Math.random() * colors.length)\<close> yields for the banner. That number is below
  \<open>colors.length\<close>, since \<open>Math.random()\<close> is below 1; the model reduces what the environment
  supplies modulo \<open>colors.length\<close>.
\<close>

record env =
  fetch :: "http_request \<Rightarrow> fetch_outcome"
  random_index :: nat

record world =
  clients :: "ref \<Rightarrow> Lokal"
  tunnels :: "ref \<Rightarrow> Tunnel"
  next_ref :: ref
  fetched :: "http_request list"
  console :: "console_call list"

section \<open>The API client\<close>

definition Lokal_new :: "string \<Rightarrow> Lokal" where
  "Lokal_new u = \<lparr>baseURL = u, basicAuth = None, token = None\<rparr>"

definition default_baseURL :: string where
  "default_baseURL = ''http://127.0.0.1:6174''"

definition update_client :: "ref \<Rightarrow> (Lokal \<Rightarrow> Lokal) \<Rightarrow> world \<Rightarrow> world" where
  "update_client r f w = w\<lparr>clients := (clients w)(r := f (clients w r))\<rparr>"

definition setBaseURL :: "ref \<Rightarrow> string \<Rightarrow> world \<Rightarrow> ref \<times> world" where
  "setBaseURL this u w = (this, update_client this (\<lambda>c. c\<lparr>baseURL := u\<rparr>) w)"

definition setBasicAuth :: "ref \<Rightarrow> string \<Rightarrow> string \<Rightarrow> world \<Rightarrow> ref \<times> world" where
  "setBasicAuth this username password w =
     (this, update_client this (\<lambda>c. c\<lparr>basicAuth := Some (username, password)\<rparr>) w)"

definition setAPIToken :: "ref \<Rightarrow> string \<Rightarrow> world \<Rightarrow> ref \<times> world" where
  "setAPIToken this t w = (this, update_client this (\<lambda>c. c\<lparr>token := Some t\<rparr>) w)"

definition base64_alphabet :: string where
  "base64_alphabet = ''ABCDEFGHIJKLMNOPQRSTUVWXYZabcdefghijklmnopqrstuvwxyz0123456789+/''"

fun btoa :: "string \<Rightarrow> string" where
  "btoa [] = []"
| "btoa [a] =
     (let n = of_char a * 65536
      in [base64_alphabet ! (n div 262144), base64_alphabet ! (n div 4096 mod 64),
          CHR ''='', CHR ''=''])"
| "btoa [a, b] =
     (let n = of_char a * 65536 + of_char b * 256
      in [base64_alphabet ! (n div 262144), base64_alphabet ! (n div 4096 mod 64),
          base64_alphabet ! (n div 64 mod 64), CHR ''=''])"
| "btoa (a # b # c # rest) =
     (let n = of_char a * 65536 + of_char b * 256 + of_char c
      in [base64_alphabet ! (n div 262144), base64_alphabet ! (n div 4096 mod 64),
          base64_alphabet ! (n div 64 mod 64), base64_alphabet ! (n mod 64)] @ btoa rest)"

definition request_headers :: "Lokal \<Rightarrow> (string \<times> string) list" where
  "request_headers c =
     [(''User-Agent'', ''Lokal TS - github.com/lokal-so/lokal-ts''),
      (''Content-Type'', ''application/json'')]
     @ (case token c of
          None \<Rightarrow> []
        | Some t \<Rightarrow> if t \<noteq> [] then [(''X-Auth-Token'', t)] else [])
     @ (case basicAuth c of
          None \<Rightarrow> []
        | Some (username, password) \<Rightarrow>
            [(''Authorization'', ''Basic '' @ btoa (username @ '':'' @ password))])"

definition JSON_stringify :: "world \<Rightarrow> ref \<Rightarrow> json_body" where
  "JSON_stringify w r = TunnelJSON (tunnels w r) (clients w (lokal (tunnels w r)))"

definition build_request :: "world \<Rightarrow> ref \<Rightarrow> string \<Rightarrow> string \<Rightarrow> ref option \<Rightarrow> http_request" where
  "build_request w this endpoint method b =
     \<lparr>url = baseURL (clients w this) @ endpoint,
      http_method = method,
      headers = request_headers (clients w this),
      body = map_option (JSON_stringify w) b\<rparr>"

definition outdated :: error where
  "outdated = Error ''Your local client might be outdated, please update''"

definition not_running_hint :: string where
  "not_running_hint =
     ''No Lokal client running, you may need to install Lokal Client, download at https://lokal.so/download''"

text \<open>\<open>m || d\<close> for an optional string \<open>m\<close>.\<close>

fun or_else :: "string option \<Rightarrow> string \<Rightarrow> string" where
  "or_else None d = d"
| "or_else (Some m) d = (if m \<noteq> [] then m else d)"

text \<open>
  \<open>request\<close> returns the parsed body, returns \<open>undefined\<close> (\<open>Inr None\<close>) or throws (\<open>Inl\<close>).
  The body argument is \<open>null\<close> (\<open>None\<close>) or a handle.
\<close>

definition request ::
  "env \<Rightarrow> ref \<Rightarrow> string \<Rightarrow> string \<Rightarrow> ref option \<Rightarrow> world \<Rightarrow> (error + api_response option) \<times> world" where
  "request env this endpoint method b w =
     (let req = build_request w this endpoint method b;
          w1 = w\<lparr>fetched := fetched w @ [req]\<rparr>
      in case fetch env req of
           Rejected err \<Rightarrow>
             (case err of
                ErrorInstance msg \<Rightarrow>
                  (Inr None,
                   w1\<lparr>console := console w1 @ [Console_error [Plain not_running_hint, Plain msg]]\<rparr>)
              | OtherValue \<Rightarrow> (Inr None, w1))
         | Resolved resp \<Rightarrow>
             (case headers_get resp ''Lokal-Server-Version'' of
                None \<Rightarrow> (Inl outdated, w1)
              | Some serverVersion \<Rightarrow>
                  if serverVersion = [] \<or> \<not> isValidVersion serverVersion then (Inl outdated, w1)
                  else
                    (case json resp of
                       Inl e \<Rightarrow> (Inl e, w1)
                     | Inr d \<Rightarrow>
                         if \<not> ok resp
                         then (Inl (Error (or_else (message d) ''An error occurred'')), w1)
                         else (Inr (Some d), w1))))"

section \<open>The tunnel handle\<close>

definition Tunnel_new :: "ref \<Rightarrow> Tunnel" where
  "Tunnel_new l =
     \<lparr>lokal = l, tunnel_id = None, name = [], tunnel_type = HTTP, local_address = [],
      server_id = None, address_tunnel = None, address_tunnel_port = None,
      address_public = None, address_mdns = None, inspect = False,
      options = \<lparr>basic_auth = None, cidr_allow = None, cidr_deny = None,
                 request_header_add = None, request_header_remove = None,
                 response_header_add = None, response_header_remove = None,
                 header_key = None\<rparr>,
      ignoreDuplicateFlag = False, startupBannerFlag = False\<rparr>"

definition newTunnel :: "ref \<Rightarrow> world \<Rightarrow> ref \<times> world" where
  "newTunnel this w =
     (next_ref w,
      w\<lparr>tunnels := (tunnels w)(next_ref w := Tunnel_new this), next_ref := Suc (next_ref w)\<rparr>)"

definition update_tunnel :: "ref \<Rightarrow> (Tunnel \<Rightarrow> Tunnel) \<Rightarrow> world \<Rightarrow> world" where
  "update_tunnel r f w = w\<lparr>tunnels := (tunnels w)(r := f (tunnels w r))\<rparr>"

definition setLocalAddress :: "ref \<Rightarrow> string \<Rightarrow> world \<Rightarrow> ref \<times> world" where
  "setLocalAddress this localAddress w =
     (this, update_tunnel this (\<lambda>t. t\<lparr>local_address := localAddress\<rparr>) w)"

definition setTunnelType :: "ref \<Rightarrow> TunnelType \<Rightarrow> world \<Rightarrow> ref \<times> world" where
  "setTunnelType this tunnelType w =
     (this, update_tunnel this (\<lambda>t. t\<lparr>tunnel_type := tunnelType\<rparr>) w)"

definition setInspection :: "ref \<Rightarrow> bool \<Rightarrow> world \<Rightarrow> ref \<times> world" where
  "setInspection this i w = (this, update_tunnel this (\<lambda>t. t\<lparr>inspect := i\<rparr>) w)"

definition endsWith :: "string \<Rightarrow> string \<Rightarrow> bool" where
  "endsWith s e = (length e \<le> length s \<and> drop (length s - length e) s = e)"

text \<open>
  \<open>s.replace(p, '')\<close> where the pattern \<open>p\<close> is ".local" anchored at the end of the string:
  it can only match the last six characters, and the first match is the only one.
\<close>

definition replace_local :: "string \<Rightarrow> string" where
  "replace_local s = (if endsWith s ''.local'' then take (length s - 6) s else s)"

text \<open>A truthy argument is a non-empty string, so the other cases of a truthy branch never run.\<close>

definition setLANAddress :: "ref \<Rightarrow> jsarg \<Rightarrow> world \<Rightarrow> ref \<times> world" where
  "setLANAddress this lanAddress w =
     (if truthy lanAddress
      then (case lanAddress of
              Str s \<Rightarrow> (this, update_tunnel this (\<lambda>t. t\<lparr>address_mdns := Some (replace_local s)\<rparr>) w)
            | _ \<Rightarrow> (this, w))
      else (this, update_tunnel this (\<lambda>t. t\<lparr>address_mdns := Some []\<rparr>) w))"

text \<open>\<open>x || ''\<close> for an argument that is a string, \<open>undefined\<close> or \<open>null\<close>.\<close>

definition or_empty :: "jsarg \<Rightarrow> string" where
  "or_empty x = (if truthy x then (case x of Str s \<Rightarrow> s | _ \<Rightarrow> []) else [])"

definition setPublicAddress :: "ref \<Rightarrow> jsarg \<Rightarrow> world \<Rightarrow> ref \<times> world" where
  "setPublicAddress this publicAddress w =
     (this, update_tunnel this (\<lambda>t. t\<lparr>address_public := Some (or_empty publicAddress)\<rparr>) w)"

definition setName :: "ref \<Rightarrow> jsarg \<Rightarrow> world \<Rightarrow> ref \<times> world" where
  "setName this n w = (this, update_tunnel this (\<lambda>t. t\<lparr>name := or_empty n\<rparr>) w)"

definition ignoreDuplicate :: "ref \<Rightarrow> world \<Rightarrow> ref \<times> world" where
  "ignoreDuplicate this w = (this, update_tunnel this (\<lambda>t. t\<lparr>ignoreDuplicateFlag := True\<rparr>) w)"

definition showStartupBanner :: "ref \<Rightarrow> world \<Rightarrow> ref \<times> world" where
  "showStartupBanner this w = (this, update_tunnel this (\<lambda>t. t\<lparr>startupBannerFlag := True\<rparr>) w)"

subsection \<open>The startup banner\<close>

definition banner :: string where
  "banner =
     concat (map (\<lambda>l. CHR 0x0A # l)
       [''    __       _         _             '',
        ''   / /  ___ | | ____ _| |  ___  ___  '',
        ''  / /  / _ '' @ [CHR 0x5C] @ ''| |/ / _  | | / __|/ _ '' @ [CHR 0x5C] @ '' '',
        '' / /__| (_) |   < (_| | |_'' @ [CHR 0x5C] @ ''__ '' @ [CHR 0x5C] @ '' (_) |'',
        '' '' @ [CHR 0x5C] @ ''____/'' @ [CHR 0x5C] @ ''___/|_|'' @ [CHR 0x5C] @ ''_'' @ [CHR 0x5C] @ ''__,_|_(_)___/'' @ [CHR 0x5C] @ ''___/ ''])"

definition colors :: "color list" where
  "colors = [magenta, blue, cyan, green, red]"

definition showBanner :: "env \<Rightarrow> ref \<Rightarrow> world \<Rightarrow> world" where
  "showBanner env this w =
     (let t = tunnels w this;
          randomColor = colors ! (random_index env mod length colors)
      in w\<lparr>console := console w
           @ [Console_log [Colored randomColor banner],
              Console_log [],
              Console_log [Colored red ''Minimum Lokal Client'', Plain (CHR 0x09 # ServerMinVersion)]]
           @ (case address_public t of
                None \<Rightarrow> []
              | Some a \<Rightarrow>
                  if a \<noteq> []
                  then [Console_log [Colored cyan ''Public Address'',
                                     Plain ([CHR 0x09, CHR 0x09] @ ''https://'' @ a)]]
                  else [])
           @ (case address_mdns t of
                None \<Rightarrow> []
              | Some a \<Rightarrow>
                  if a \<noteq> []
                  then [Console_log [Colored green ''LAN Address'',
                                     Plain ([CHR 0x09, CHR 0x09] @ ''https://'' @ a)]]
                  else [])
           @ [Console_log []]\<rparr>)"

subsection \<open>Creating the tunnel and reading its addresses\<close>

text \<open>
  A method that can throw returns \<open>Inl\<close> of the error. Reading a property of \<open>undefined\<close>
  (the result of \<open>request\<close> after a transport failure, or a missing \<open>address_public\<close>)
  is a \<open>TypeError\<close>.
\<close>

definition create :: "env \<Rightarrow> ref \<Rightarrow> world \<Rightarrow> (error + ref) \<times> world" where
  "create env this w =
     (if \<not> truthy_field (address_mdns (tunnels w this))
         \<and> \<not> truthy_field (address_public (tunnels w this))
      then (Inl (Error ''Please enable either LAN address or random/custom public URL''), w)
      else
        (case request env (lokal (tunnels w this)) ''/api/tunnel/start'' ''POST'' (Some this) w of
           (Inl e, w1) \<Rightarrow> (Inl e, w1)
         | (Inr None, w1) \<Rightarrow> (Inl TypeError, w1)
         | (Inr (Some resp), w1) \<Rightarrow>
             if \<not> success resp \<or> length (data resp) = 0
             then (Inl (Error (or_else (message resp) ''Tunnel creation failing'')), w1)
             else
               let tunnel = data resp ! 0;
                   w2 = update_tunnel this
                          (\<lambda>t. t\<lparr>address_public := e_address_public tunnel,
                                 address_mdns := e_address_mdns tunnel,
                                 tunnel_id := e_id tunnel\<rparr>) w1
               in if startupBannerFlag (tunnels w2 this)
                  then (Inr this, showBanner env this w2)
                  else (Inr this, w2)))"

definition getLANAddress :: "ref \<Rightarrow> world \<Rightarrow> error + string" where
  "getLANAddress this w =
     (case address_mdns (tunnels w this) of
        None \<Rightarrow> Inl (Error ''LAN address is not being set'')
      | Some a \<Rightarrow>
          if a = [] then Inl (Error ''LAN address is not being set'')
          else Inr (if endsWith a ''.local'' then a else a @ ''.local''))"

definition includes_str :: "string \<Rightarrow> char \<Rightarrow> bool" where
  "includes_str s c = (c \<in> set s)"

definition updatePublicURLPort :: "env \<Rightarrow> ref \<Rightarrow> world \<Rightarrow> (error + unit) \<times> world" where
  "updatePublicURLPort env this w =
     (case tunnel_id (tunnels w this) of
        None \<Rightarrow> (Inl (Error ''Tunnel ID is not set''), w)
      | Some i \<Rightarrow>
          if i = [] then (Inl (Error ''Tunnel ID is not set''), w)
          else
            (case request env (lokal (tunnels w this)) (''/api/tunnel/info/'' @ i) ''GET'' None w of
               (Inl e, w1) \<Rightarrow> (Inl e, w1)
             | (Inr None, w1) \<Rightarrow> (Inl TypeError, w1)
             | (Inr (Some resp), w1) \<Rightarrow>
                 if \<not> success resp \<or> length (data resp) = 0
                 then (Inl (Error ''Could not get tunnel info''), w1)
                 else
                   (case e_address_public (data resp ! 0) of
                      None \<Rightarrow> (Inl TypeError, w1)
                    | Some a \<Rightarrow>
                        if \<not> includes_str a CHR '':''
                        then (Inl (Error ''Could not get assigned port''), w1)
                        else (Inr (), update_tunnel this (\<lambda>t. t\<lparr>address_public := Some a\<rparr>) w1))))"

definition not_yet_assigned :: error where
  "not_yet_assigned =
     Error ''Tunnel is using a random port, but it has not been assigned yet. Please try again later''"

definition getPublicAddress :: "env \<Rightarrow> ref \<Rightarrow> world \<Rightarrow> (error + string) \<times> world" where
  "getPublicAddress env this w =
     (case address_public (tunnels w this) of
        None \<Rightarrow> (Inl (Error ''Public address is not requested by client''), w)
      | Some a \<Rightarrow>
          if a = [] then (Inl (Error ''Public address is not requested by client''), w)
          else if tunnel_type (tunnels w this) \<noteq> HTTP \<and> \<not> includes_str a CHR '':''
          then (case updatePublicURLPort env this w of
                  (Inl e, w1) \<Rightarrow> (Inl e, w1)
                | (Inr u, w1) \<Rightarrow> (Inl not_yet_assigned, w1))
          else (Inr a, w))"

section \<open>Vocabulary of the properties\<close>

subsection \<open>Frames of the fluent setters\<close>

datatype field =
    F_lokal | F_id | F_name | F_tunnel_type | F_local_address | F_server_id
  | F_address_tunnel | F_address_tunnel_port | F_address_public | F_address_mdns
  | F_inspect | F_options | F_ignoreDuplicateFlag | F_startupBannerFlag

definition same_fields_except :: "field \<Rightarrow> Tunnel \<Rightarrow> Tunnel \<Rightarrow> bool" where
  "same_fields_except f t t' =
     ((f = F_lokal \<or> lokal t' = lokal t)
      \<and> (f = F_id \<or> tunnel_id t' = tunnel_id t)
      \<and> (f = F_name \<or> name t' = name t)
      \<and> (f = F_tunnel_type \<or> tunnel_type t' = tunnel_type t)
      \<and> (f = F_local_address \<or> local_address t' = local_address t)
      \<and> (f = F_server_id \<or> server_id t' = server_id t)
      \<and> (f = F_address_tunnel \<or> address_tunnel t' = address_tunnel t)
      \<and> (f = F_address_tunnel_port \<or> address_tunnel_port t' = address_tunnel_port t)
      \<and> (f = F_address_public \<or> address_public t' = address_public t)
      \<and> (f = F_address_mdns \<or> address_mdns t' = address_mdns t)
      \<and> (f = F_inspect \<or> inspect t' = inspect t)
      \<and> (f = F_options \<or> options t' = options t)
      \<and> (f = F_ignoreDuplicateFlag \<or> ignoreDuplicateFlag t' = ignoreDuplicateFlag t)
      \<and> (f = F_startupBannerFlag \<or> startupBannerFlag t' = startupBannerFlag t))"

text \<open>
  Between two worlds nothing differs but one field of one handle: the clients, every
  other handle, the allocator, the requests sent and the console are the same.
\<close>

definition only_field_changed :: "ref \<Rightarrow> field \<Rightarrow> world \<Rightarrow> world \<Rightarrow> bool" where
  "only_field_changed this f w w' =
     (clients w' = clients w \<and> next_ref w' = next_ref w \<and> fetched w' = fetched w
      \<and> console w' = console w
      \<and> tunnels w' = (tunnels w)(this := tunnels w' this)
      \<and> same_fields_except f (tunnels w this) (tunnels w' this))"

datatype setter_call =
    SetLocalAddress string | SetTunnelType TunnelType | SetInspection bool
  | SetLANAddress jsarg | SetPublicAddress jsarg | SetName jsarg
  | IgnoreDuplicate | ShowStartupBanner

fun call :: "setter_call \<Rightarrow> ref \<Rightarrow> world \<Rightarrow> ref \<times> world" where
  "call (SetLocalAddress a) this w = setLocalAddress this a w"
| "call (SetTunnelType y) this w = setTunnelType this y w"
| "call (SetInspection i) this w = setInspection this i w"
| "call (SetLANAddress a) this w = setLANAddress this a w"
| "call (SetPublicAddress a) this w = setPublicAddress this a w"
| "call (SetName n) this w = setName this n w"
| "call IgnoreDuplicate this w = ignoreDuplicate this w"
| "call ShowStartupBanner this w = showStartupBanner this w"

fun target :: "setter_call \<Rightarrow> field" where
  "target (SetLocalAddress a) = F_local_address"
| "target (SetTunnelType y) = F_tunnel_type"
| "target (SetInspection i) = F_inspect"
| "target (SetLANAddress a) = F_address_mdns"
| "target (SetPublicAddress a) = F_address_public"
| "target (SetName n) = F_name"
| "target IgnoreDuplicate = F_ignoreDuplicateFlag"
| "target ShowStartupBanner = F_startupBannerFlag"

text \<open>A chain \<open>h.c1().c2()...\<close>: every call is made on what the previous one returned.\<close>

fun chain :: "setter_call list \<Rightarrow> ref \<Rightarrow> world \<Rightarrow> ref \<times> world" where
  "chain [] this w = (this, w)"
| "chain (c # cs) this w = (case call c this w of (r, w') \<Rightarrow> chain cs r w')"

subsection \<open>Example worlds and daemons\<close>

definition new_Lokal :: "string \<Rightarrow> world \<Rightarrow> ref \<times> world" where
  "new_Lokal u w =
     (next_ref w,
      w\<lparr>clients := (clients w)(next_ref w := Lokal_new u), next_ref := Suc (next_ref w)\<rparr>)"

definition empty_world :: world where
  "empty_world =
     \<lparr>clients = (\<lambda>r. Lokal_new default_baseURL), tunnels = (\<lambda>r. Tunnel_new 0),
      next_ref = 0, fetched = [], console = []\<rparr>"

text \<open>The world after \<open>new Lokal().newTunnel()\<close>, its client and its handle.\<close>

definition client :: ref where
  "client = 0"

definition handle :: ref where
  "handle = 1"

definition fresh :: world where
  "fresh = snd (newTunnel client (snd (new_Lokal default_baseURL empty_world)))"

text \<open>A daemon that answers every request with one version header, status and body.\<close>

definition answering :: "string option \<Rightarrow> bool \<Rightarrow> error + api_response \<Rightarrow> env" where
  "answering v k j =
     \<lparr>fetch = (\<lambda>req. Resolved
                \<lparr>headers_get = (\<lambda>h. if h = ''Lokal-Server-Version'' then v else None),
                 ok = k, json = j\<rparr>),
      random_index = 0\<rparr>"

text \<open>No daemon is running: every \<open>fetch\<close> rejects with a \<open>TypeError\<close>.\<close>

definition unreachable :: env where
  "unreachable =
     \<lparr>fetch = (\<lambda>req. Rejected (ErrorInstance ''fetch failed'')), random_index = 0\<rparr>"

definition reply :: "bool \<Rightarrow> string option \<Rightarrow> entry list \<Rightarrow> error + api_response" where
  "reply s m d = Inr \<lparr>success = s, message = m, data = d\<rparr>"

definition example_entry :: entry where
  "example_entry =
     \<lparr>e_id = Some ''abc'', e_address_public = Some ''my-app.example.com'',
      e_address_mdns = Some ''my-app''\<rparr>"

text \<open>
  A TCP handle asking for the public address 1.2.3.4: before \<open>create\<close> (no id), and after
  a \<open>create\<close> that the daemon answered with id abc and no port yet.
\<close>

definition pending_entry :: entry where
  "pending_entry =
     \<lparr>e_id = Some ''abc'', e_address_public = Some ''1.2.3.4'', e_address_mdns = None\<rparr>"

definition assigned_entry :: entry where
  "assigned_entry =
     \<lparr>e_id = Some ''abc'', e_address_public = Some ''1.2.3.4:5000'', e_address_mdns = None\<rparr>"

definition tcp_configured :: world where
  "tcp_configured =
     snd (chain [SetPublicAddress (Str ''1.2.3.4''), SetTunnelType TCP] handle fresh)"

definition tcp_created :: world where
  "tcp_created =
     snd (create (answering (Some ''0.6.0'') True (reply True None [pending_entry])) handle
            tcp_configured)"

section \<open>Rounding to a double never crosses a small integer\<close>

lemma ilog2_le:
  assumes "0 < x" shows "2 powi (ilog2 x) \<le> x"
proof -
  obtain n d where q: "quotient_of x = (n, d)" by (cases "quotient_of x")
  have d: "0 < d" using q quotient_of_denom_pos by blast
  have x: "x = of_int n / of_int d" using q quotient_of_div by blast
  have n: "0 < n" using assms d x by (simp add: zero_less_divide_iff)
  let ?c = "bitlen n - bitlen d"
  show ?thesis
  proof (cases "2 powi ?c \<le> x")
    case True
    then show ?thesis by (simp add: ilog2_def q)
  next
    case False
    then have e: "ilog2 x = ?c - 1" by (simp add: ilog2_def q)
    have bn: "2 ^ nat (bitlen n - 1) \<le> n" using bitlen_bounds [OF n] by simp
    have bd: "d < 2 ^ nat (bitlen d)" using bitlen_bounds [OF d] by simp
    have n1: "1 \<le> bitlen n" using n bitlen_eq_zero_iff [of n] bitlen_nonneg [of n] by linarith
    have p: "(2::rat) powi (?c - 1) = 2 ^ nat (bitlen n - 1) / 2 ^ nat (bitlen d)"
    proof -
      have "(2::rat) powi (?c - 1) = 2 powi (bitlen n - 1) / 2 powi (bitlen d)"
        using power_int_diff [of "2::rat" "bitlen n - 1" "bitlen d"]
        by (simp add: algebra_simps)
      also have "(2::rat) powi (bitlen n - 1) = 2 ^ nat (bitlen n - 1)"
        using n1 by (simp add: power_int_def)
      also have "(2::rat) powi (bitlen d) = 2 ^ nat (bitlen d)"
        using bitlen_nonneg [of d] by (simp add: power_int_def)
      finally show ?thesis .
    qed
    have "(2::rat) ^ nat (bitlen n - 1) \<le> of_int n" using bn
      by (metis of_int_le_iff of_int_numeral of_int_power)
    moreover have "(of_int d :: rat) \<le> 2 ^ nat (bitlen d)" using bd
      by (metis less_imp_le of_int_le_iff of_int_numeral of_int_power)
    ultimately have "(2::rat) ^ nat (bitlen n - 1) / 2 ^ nat (bitlen d) \<le> of_int n / of_int d"
      using d n by (intro frac_le) auto
    then show ?thesis using e p x by simp
  qed
qed

lemma rhe_cases:
  "round_half_even x = \<lfloor>x\<rfloor> \<or> (round_half_even x = \<lfloor>x\<rfloor> + 1 \<and> of_int \<lfloor>x\<rfloor> < x)"
  unfolding round_half_even_def Let_def by auto

lemma rhe_ge: "of_int K \<le> x \<Longrightarrow> K \<le> round_half_even x"
proof -
  assume "of_int K \<le> x"
  then have "K \<le> \<lfloor>x\<rfloor>" by (simp add: le_floor_iff)
  with rhe_cases [of x] show ?thesis by auto
qed

lemma rhe_le: "x \<le> of_int K \<Longrightarrow> round_half_even x \<le> K"
proof -
  assume a: "x \<le> of_int K"
  then have f: "\<lfloor>x\<rfloor> \<le> K" by (simp add: floor_le_iff)
  from rhe_cases [of x] show ?thesis
  proof
    assume "round_half_even x = \<lfloor>x\<rfloor>" with f show ?thesis by simp
  next
    assume b: "round_half_even x = \<lfloor>x\<rfloor> + 1 \<and> of_int \<lfloor>x\<rfloor> < x"
    with a have "(of_int \<lfloor>x\<rfloor> :: rat) < of_int K" by linarith
    then have "\<lfloor>x\<rfloor> < K" by simp
    with b show ?thesis by simp
  qed
qed

text \<open>A value at or above a small positive integer rounds to a double at or above it.\<close>

lemma round_double_pos_ge:
  assumes k: "0 < k" "k \<le> 2 ^ 52" and x: "of_nat k \<le> x"
  shows "round_double_pos x = PosInf \<or> (\<exists>v. round_double_pos x = Fin v \<and> of_nat k \<le> v)"
proof -
  have xpos: "0 < x" using k x by (metis less_le_trans of_nat_0_less_iff)
  define e where "e = max (ilog2 x) (- 1022)"
  define u :: rat where "u = 2 powi (e - 52)"
  define m where "m = round_half_even (x / u)"
  have upos: "0 < u" by (simp add: u_def)
  have rd: "round_double_pos x = (if 2 powi 1024 \<le> of_int m * u then PosInf else Fin (of_int m * u))"
    by (simp add: round_double_pos_def Let_def e_def u_def m_def)
  have "of_nat k \<le> of_int m * u"
  proof (cases "e \<le> 52")
    case True
    have "(of_nat k :: rat) / u = of_nat k * 2 powi (52 - e)"
      using power_int_minus [of "2::rat" "e - 52"] by (simp add: u_def field_simps)
    also have "\<dots> = of_int (int k * 2 ^ nat (52 - e))"
      using True by (simp add: power_int_def)
    finally have ku: "(of_nat k :: rat) / u = of_int (int k * 2 ^ nat (52 - e))" .
    have "of_nat k / u \<le> x / u" using x upos by (simp add: divide_right_mono)
    then have "int k * 2 ^ nat (52 - e) \<le> m"
      unfolding m_def ku by (rule rhe_ge)
    then have "(of_int (int k * 2 ^ nat (52 - e)) :: rat) \<le> of_int m"
      using of_int_le_iff by blast
    then have "of_nat k / u \<le> of_int m" using ku by simp
    then show ?thesis using upos by (simp add: pos_divide_le_eq)
  next
    case False
    then have ee: "e = ilog2 x" by (simp add: e_def)
    have "2 powi e \<le> x" unfolding ee by (rule ilog2_le [OF xpos])
    then have "2 powi e / u \<le> x / u" using upos by (simp add: divide_right_mono)
    moreover have "(2::rat) powi e / u = of_int (2 ^ 52)"
      using power_int_diff [of "2::rat" e "e - 52"] by (simp add: u_def)
    ultimately have "2 ^ 52 \<le> m" unfolding m_def using rhe_ge by metis
    then have "(of_int (2 ^ 52) :: rat) \<le> of_int m" using of_int_le_iff by blast
    then have c1: "(2 ^ 52 :: rat) * u \<le> of_int m * u" using upos by simp
    have c2: "(of_nat k :: rat) \<le> 2 ^ 52" using k(2)
      by (metis of_nat_le_iff of_nat_numeral of_nat_power)
    have "1 \<le> u" unfolding u_def using False by (simp add: one_le_power_int)
    then have "(2 ^ 52 :: rat) \<le> 2 ^ 52 * u" by simp
    with c1 c2 show ?thesis by linarith
  qed
  then show ?thesis using rd by auto
qed

lemma round_double_pos_le:
  assumes xpos: "0 < x" and x: "x \<le> of_nat k" and k: "k < 2 ^ 53"
  shows "\<exists>v. round_double_pos x = Fin v \<and> v \<le> of_nat k"
proof -
  define e where "e = max (ilog2 x) (- 1022)"
  define u :: rat where "u = 2 powi (e - 52)"
  define m where "m = round_half_even (x / u)"
  have upos: "0 < u" by (simp add: u_def)
  have rd: "round_double_pos x = (if 2 powi 1024 \<le> of_int m * u then PosInf else Fin (of_int m * u))"
    by (simp add: round_double_pos_def Let_def e_def u_def m_def)
  have k': "(of_nat k :: rat) < 2 ^ 53" using k
    by (metis of_nat_less_iff of_nat_numeral of_nat_power)
  have "ilog2 x \<le> 52"
  proof (rule ccontr)
    assume "\<not> ilog2 x \<le> 52"
    then have "53 \<le> ilog2 x" by simp
    then have "(2::rat) powi 53 \<le> 2 powi (ilog2 x)" by (intro power_int_increasing) auto
    also have "\<dots> \<le> x" by (rule ilog2_le [OF xpos])
    finally show False using x k' by simp
  qed
  then have e52: "e \<le> 52" by (simp add: e_def)
  have "(of_nat k :: rat) / u = of_nat k * 2 powi (52 - e)"
    using power_int_minus [of "2::rat" "e - 52"] by (simp add: u_def field_simps)
  also have "\<dots> = of_int (int k * 2 ^ nat (52 - e))"
    using e52 by (simp add: power_int_def)
  finally have ku: "(of_nat k :: rat) / u = of_int (int k * 2 ^ nat (52 - e))" .
  have "x / u \<le> of_nat k / u" using x upos by (simp add: divide_right_mono)
  then have "m \<le> int k * 2 ^ nat (52 - e)"
    unfolding m_def ku by (rule rhe_le)
  then have "(of_int m :: rat) \<le> of_int (int k * 2 ^ nat (52 - e))"
    using of_int_le_iff by blast
  then have "of_int m \<le> of_nat k / u" using ku by simp
  then have v: "of_int m * u \<le> of_nat k" using upos by (simp add: pos_le_divide_eq)
  then have "of_int m * u < 2 powi 1024" using k' by simp
  then show ?thesis using rd v by auto
qed

lemma round_double_of_int:
  fixes n :: int and c :: nat
  assumes c: "c < 2 ^ 52"
  shows "js_lt (Fin (of_nat c)) (round_double (of_int n)) = (int c < n)"
    and "js_lt (round_double (of_int n)) (Fin (of_nat c)) = (n < int c)"
    and "round_double (of_int n) \<noteq> NaN"
proof -
  have "(js_lt (Fin (of_nat c)) (round_double (of_int n)) = (int c < n))
      \<and> (js_lt (round_double (of_int n)) (Fin (of_nat c)) = (n < int c))
      \<and> round_double (of_int n) \<noteq> NaN"
  proof -
    consider "n < 0" | "n = 0" | "0 < n" "n < int c" | "0 < n" "n = int c" | "int c < n"
      by linarith
    then show ?thesis
    proof cases
      case 1
      then have "1 \<le> - n" by simp
      then have "(of_int 1 :: rat) \<le> of_int (- n)" by (simp only: of_int_le_iff)
      then have "(of_nat 1 :: rat) \<le> - of_int n" by simp
      from round_double_pos_ge [OF _ _ this]
      have "round_double_pos (- of_int n) = PosInf \<or>
            (\<exists>v. round_double_pos (- of_int n) = Fin v \<and> 1 \<le> v)" by simp
      moreover have "round_double (of_int n) = js_neg (round_double_pos (- of_int n))"
        using 1 by (simp add: round_double_def)
      moreover have "\<And>v::rat. 1 \<le> v \<Longrightarrow> - v < of_nat c"
      proof -
        fix v :: rat assume "1 \<le> v"
        moreover have "(0::rat) \<le> of_nat c" by simp
        ultimately show "- v < of_nat c" by linarith
      qed
      ultimately show ?thesis using 1 by auto
    next
      case 2
      then show ?thesis by (simp add: round_double_def)
    next
      case 3
      define k where "k = nat n"
      have k: "n = int k" "k < c" "0 < k" using 3 by (auto simp: k_def)
      have "k < 2 ^ 53" using k c by simp
      from round_double_pos_le [OF _ _ this, of "of_nat k"] k
      obtain v where "round_double_pos (of_nat k) = Fin v" "v \<le> of_nat k" by auto
      moreover have "round_double (of_int n) = round_double_pos (of_nat k)"
        using k by (simp add: round_double_def)
      moreover have "(of_nat k :: rat) < of_nat c" using k by simp
      ultimately show ?thesis using 3 by auto
    next
      case 4
      have c53: "c < 2 ^ 53" using c by simp
      have cpos: "0 < c" using 4 by simp
      have c52: "c \<le> 2 ^ 52" using c by simp
      from round_double_pos_le [OF _ _ c53, of "of_nat c"] cpos
      obtain v where v: "round_double_pos (of_nat c) = Fin v" "v \<le> of_nat c" by auto
      from round_double_pos_ge [OF cpos c52, of "of_nat c"] v
      have "of_nat c \<le> v" by auto
      with v have "round_double_pos (of_nat c) = Fin (of_nat c)" by simp
      moreover have "round_double (of_int n) = round_double_pos (of_nat c)"
        using 4 by (simp add: round_double_def)
      ultimately show ?thesis using 4 by simp
    next
      case 5
      have "int (Suc c) \<le> n" using 5 by simp
      then have "(of_int (int (Suc c)) :: rat) \<le> of_int n" by (simp only: of_int_le_iff)
      then have "(of_nat (Suc c) :: rat) \<le> of_int n" by simp
      moreover have "Suc c \<le> 2 ^ 52" using c by simp
      ultimately have "round_double_pos (of_int n) = PosInf \<or>
            (\<exists>v. round_double_pos (of_int n) = Fin v \<and> of_nat (Suc c) \<le> v)"
        using round_double_pos_ge [of "Suc c" "of_int n"] by simp
      moreover have "round_double (of_int n) = round_double_pos (of_int n)"
        using 5 by (simp add: round_double_def)
      moreover have "\<And>v::rat. of_nat (Suc c) \<le> v \<Longrightarrow> of_nat c < v \<and> \<not> v < of_nat c"
      proof -
        fix v :: rat assume "of_nat (Suc c) \<le> v"
        then have "of_nat c + 1 \<le> v" by (simp add: add.commute)
        then show "of_nat c < v \<and> \<not> v < of_nat c" by linarith
      qed
      ultimately show ?thesis using 5 by auto
    qed
  qed
  then show "js_lt (Fin (of_nat c)) (round_double (of_int n)) = (int c < n)"
    and "js_lt (round_double (of_int n)) (Fin (of_nat c)) = (n < int c)"
    and "round_double (of_int n) \<noteq> NaN" by auto
qed

text \<open>Integers of magnitude below \<open>2^52\<close> are doubles.\<close>

lemma round_double_exact:
  assumes "\<bar>n\<bar> < 2 ^ 52"
  shows "round_double (of_int n) = Fin (of_int n)"
proof -
  have pos: "round_double_pos (of_nat k) = Fin (of_nat k)" if k: "0 < k" "k < 2 ^ 52" for k
  proof -
    have "k < 2 ^ 53" using k by simp
    from round_double_pos_le [OF _ _ this, of "of_nat k"] k
    obtain v where v: "round_double_pos (of_nat k) = Fin v" "v \<le> of_nat k" by auto
    have "k \<le> 2 ^ 52" using k by simp
    from round_double_pos_ge [OF k(1) this, of "of_nat k"] v
    have "of_nat k \<le> v" by auto
    with v show ?thesis by simp
  qed
  consider "n = 0" | "0 < n" | "n < 0" by linarith
  then show ?thesis
  proof cases
    case 1
    then show ?thesis by (simp add: round_double_def)
  next
    case 2
    define k where "k = nat n"
    have k: "n = int k" "0 < k" "k < 2 ^ 52" using 2 assms by (auto simp: k_def nat_less_iff)
    show ?thesis using pos [OF k(2,3)] k by (simp add: round_double_def)
  next
    case 3
    define k where "k = nat (- n)"
    have k: "n = - int k" "0 < k" "k < 2 ^ 52" using 3 assms by (auto simp: k_def nat_less_iff)
    show ?thesis using pos [OF k(2,3)] k by (simp add: round_double_def)
  qed
qed

section \<open>The version check on versions \<open>a.b.c\<close>\<close>

declare decimal_nat.simps [simp del]

lemma digit_char:
  "d < 10 \<Longrightarrow> isDecimalDigit (''0123456789'' ! d) \<and> digit_value (''0123456789'' ! d) = d"
proof -
  assume "d < 10"
  then have "d \<in> {0, 1, 2, 3, 4, 5, 6, 7, 8, 9}" by auto
  then show ?thesis
    by (auto simp: isDecimalDigit_def digit_value_def)
qed

lemma MV_digits_snoc: "MV_digits b (ds @ [c]) = b * MV_digits b ds + digit_value c"
  by (simp add: MV_digits_def)

lemma decimal_nat_digits: "list_all isDecimalDigit (decimal_nat n)"
proof (induction n rule: decimal_nat.induct)
  case (1 n)
  show ?case
  proof (cases "n < 10")
    case True
    then show ?thesis using digit_char [of n] by (simp add: decimal_nat.simps [of n])
  next
    case False
    then show ?thesis using 1 digit_char [of "n mod 10"] by (simp add: decimal_nat.simps [of n])
  qed
qed

lemma decimal_nat_nonempty: "decimal_nat n \<noteq> []"
  by (simp add: decimal_nat.simps [of n])

lemma MV_decimal_nat: "MV_digits 10 (decimal_nat n) = n"
proof (induction n rule: decimal_nat.induct)
  case (1 n)
  show ?case
  proof (cases "n < 10")
    case True
    then show ?thesis using digit_char [of n]
      by (simp add: decimal_nat.simps [of n] MV_digits_def)
  next
    case False
    then show ?thesis using 1 digit_char [of "n mod 10"]
      by (simp add: decimal_nat.simps [of n] MV_digits_snoc)
  qed
qed

lemma digit_not_special:
  "isDecimalDigit c \<Longrightarrow> \<not> StrWhiteSpaceChar c \<and> c \<noteq> CHR ''.'' \<and> c \<noteq> CHR ''+'' \<and> c \<noteq> CHR ''-'' \<and> c \<noteq> CHR ''I''"
  by (auto simp: isDecimalDigit_def StrWhiteSpaceChar_def)

lemma StrUnsignedDecimalLiteral_digits:
  assumes "ds \<noteq> []" "list_all isDecimalDigit ds"
  shows "StrUnsignedDecimalLiteral ds = Some (round_double (of_nat (MV_digits 10 ds)))"
proof -
  have t: "takeWhile isDecimalDigit ds = ds" "dropWhile isDecimalDigit ds = []"
    using assms(2) by (simp_all add: list_all_iff)
  obtain c cs where ds: "ds = c # cs" using assms(1) by (cases ds) auto
  then have "isDecimalDigit c" using assms(2) by simp
  then have "c \<noteq> CHR ''I''" using digit_not_special by blast
  then have "ds \<noteq> ''Infinity''" using ds by auto
  then show ?thesis using assms(1)
    by (simp add: StrUnsignedDecimalLiteral_def t ExponentPart_def)
qed

lemma trim_id:
  assumes "s \<noteq> []" "\<not> StrWhiteSpaceChar (hd s)" "\<not> StrWhiteSpaceChar (last s)"
  shows "trim s = s"
proof -
  have a: "dropWhile StrWhiteSpaceChar s = s" using assms(1,2) by (cases s) auto
  have "rev s \<noteq> []" "hd (rev s) = last s" using assms(1) by (simp_all add: hd_rev)
  then have "dropWhile StrWhiteSpaceChar (rev s) = rev s" using assms(3)
    by (metis dropWhile_eq_self_iff)
  then show ?thesis by (simp add: trim_def a)
qed

lemma js_neg_js_neg: "js_neg (js_neg x) = x"
  by (cases x) auto

lemma js_neg_round_double: "js_neg (round_double x) = round_double (- x)"
  by (simp add: round_double_def js_neg_js_neg)

lemma Number_decimal: "Number (decimal i) = round_double (of_int i)"
proof (cases "i < 0")
  case False
  define ds where "ds = decimal_nat (nat i)"
  have ds: "ds \<noteq> []" "list_all isDecimalDigit ds"
    by (simp_all add: ds_def decimal_nat_nonempty decimal_nat_digits)
  then have hl: "isDecimalDigit (hd ds)" "isDecimalDigit (last ds)"
    by (simp_all add: list_all_iff)
  have tr: "trim ds = ds" using ds(1) hl digit_not_special by (intro trim_id) auto
  have "StrDecimalLiteral ds = StrUnsignedDecimalLiteral ds"
    using ds(1) hl(1) digit_not_special [of "hd ds"]
    by (cases ds) (auto simp: StrDecimalLiteral_def)
  then have "Number ds = round_double (of_nat (MV_digits 10 ds))"
    using ds by (simp add: Number_def tr StrUnsignedDecimalLiteral_digits)
  then show ?thesis using False by (simp add: decimal_def ds_def [symmetric]) (simp add: ds_def MV_decimal_nat)
next
  case True
  define ds where "ds = decimal_nat (nat (- i))"
  have ds: "ds \<noteq> []" "list_all isDecimalDigit ds"
    by (simp_all add: ds_def decimal_nat_nonempty decimal_nat_digits)
  then have hl: "isDecimalDigit (last ds)"
    by (simp_all add: list_all_iff)
  have "\<not> StrWhiteSpaceChar CHR ''-''" by (simp add: StrWhiteSpaceChar_def)
  then have tr: "trim (CHR ''-'' # ds) = CHR ''-'' # ds"
    using ds(1) hl digit_not_special by (intro trim_id) auto
  have "StrDecimalLiteral (CHR ''-'' # ds) = map_option js_neg (StrUnsignedDecimalLiteral ds)"
    by (simp add: StrDecimalLiteral_def)
  then have "Number (CHR ''-'' # ds) = round_double (- of_nat (MV_digits 10 ds))"
    using ds by (simp add: Number_def tr StrUnsignedDecimalLiteral_digits js_neg_round_double)
  then show ?thesis using True by (simp add: decimal_def ds_def [symmetric]) (simp add: ds_def MV_decimal_nat)
qed

lemma split_no_sep: "sep \<notin> set a \<Longrightarrow> split sep a = [a]"
  by (induction a) auto

lemma split_append: "sep \<notin> set a \<Longrightarrow> split sep (a @ sep # rest) = a # split sep rest"
  by (induction a) auto

lemma decimal_no_dot: "CHR ''.'' \<notin> set (decimal i)"
proof -
  have "\<And>n. CHR ''.'' \<notin> set (decimal_nat n)"
    using decimal_nat_digits digit_not_special by (auto simp: list_all_iff)
  then show ?thesis by (simp add: decimal_def)
qed

lemma split_version_string:
  "split CHR ''.'' (version_string a b c) = [decimal a, decimal b, decimal c]"
  by (simp add: version_string_def split_append split_no_sep decimal_no_dot)

lemma min_version_components:
  "map Number (split CHR ''.'' ServerMinVersion) = [Fin 0, Fin 6, Fin 0]"
proof -
  have v: "ServerMinVersion = version_string 0 6 0"
    by (simp add: ServerMinVersion_def version_string_def decimal_def decimal_nat.simps)
  have r0: "round_double 0 = Fin 0" by (simp add: round_double_def)
  have r6: "round_double 6 = Fin 6" using round_double_exact [of 6] by simp
  have "map Number (split CHR ''.'' (version_string 0 6 0))
          = [round_double 0, round_double 6, round_double 0]"
    by (simp add: split_version_string Number_decimal)
  then show ?thesis unfolding v r0 r6 .
qed

lemma op_simps:
  "op_gt (Some x) (Some y) = js_lt y x"
  "op_lt (Some x) (Some y) = js_lt x y"
  "op_ge (Some x) (Some y) = (x \<noteq> NaN \<and> y \<noteq> NaN \<and> \<not> js_lt x y)"
  by (simp_all add: op_gt_def op_lt_def op_ge_def)

lemma isValidVersion_version_string:
  "isValidVersion (version_string a b c) \<longleftrightarrow> 0 < a \<or> (a = 0 \<and> 6 < b) \<or> (a = 0 \<and> b = 6 \<and> 0 \<le> c)"
proof -
  have cmp0: "\<And>n. js_lt (Fin 0) (round_double (of_int n)) = (0 < n)"
       "\<And>n. js_lt (round_double (of_int n)) (Fin 0) = (n < 0)"
    using round_double_of_int(1,2) [of 0] by simp_all
  have cmp6: "\<And>n. js_lt (Fin 6) (round_double (of_int n)) = (6 < n)"
       "\<And>n. js_lt (round_double (of_int n)) (Fin 6) = (n < 6)"
    using round_double_of_int(1,2) [of 6] by simp_all
  have nn: "\<And>n. round_double (of_int n) \<noteq> NaN"
    using round_double_of_int(3) [of 0] by simp
  show ?thesis
    unfolding isValidVersion_def Let_def min_version_components split_version_string
    by (simp add: element_def Number_decimal op_simps cmp0 cmp6 nn) linarith
qed

lemma Number_examples:
  "Number ''0'' = Fin 0" "Number ''1'' = Fin 1" "Number ''6'' = Fin 6" "Number ''7'' = Fin 7"
proof -
  have d: "''0'' = decimal 0" "''1'' = decimal 1" "''6'' = decimal 6" "''7'' = decimal 7"
    by (simp_all add: decimal_def decimal_nat.simps)
  have r: "round_double (of_int 0) = Fin 0" "round_double (of_int 1) = Fin 1"
          "round_double (of_int 6) = Fin 6" "round_double (of_int 7) = Fin 7"
    using round_double_exact [of 0] round_double_exact [of 1] round_double_exact [of 6]
      round_double_exact [of 7] by simp_all
  show "Number ''0'' = Fin 0" "Number ''1'' = Fin 1" "Number ''6'' = Fin 6" "Number ''7'' = Fin 7"
    unfolding d Number_decimal using r by simp_all
qed

lemmas Number_defs = Number_def trim_def StrWhiteSpaceChar_def StrDecimalLiteral_def
  StrUnsignedDecimalLiteral_def NonDecimalIntegerLiteral_def isDecimalDigit_def
  ExponentPart_def DecimalDigits_def

lemma Number_not_numeric:
  "Number ''x'' = NaN" "Number ''abc'' = NaN"
  by (simp_all add: Number_defs)

lemma js_lt_NaN_right: "js_lt x NaN = False"
  by (cases x) simp_all

lemma not_lt_gt_zero: "\<not> js_lt (Fin 0) x \<and> \<not> js_lt x (Fin 0) \<longleftrightarrow> x = NaN \<or> x = Fin 0"
  by (cases x) auto

lemma not_lt_gt_six: "\<not> js_lt (Fin 6) x \<and> \<not> js_lt x (Fin 6) \<longleftrightarrow> x = NaN \<or> x = Fin 6"
  by (cases x) auto

lemma isValidVersion_components:
  "isValidVersion v \<longleftrightarrow>
     js_lt (Fin 0) (component v 0)
     \<or> (component v 0 \<in> {NaN, Fin 0} \<and> js_lt (Fin 6) (component v 1))
     \<or> (component v 0 \<in> {NaN, Fin 0} \<and> component v 1 \<in> {NaN, Fin 6}
         \<and> component v 2 \<noteq> NaN \<and> \<not> js_lt (component v 2) (Fin 0))"
proof -
  define c0 where "c0 = component v 0"
  define c1 where "c1 = component v 1"
  define c2 where "c2 = component v 2"
  have "isValidVersion v =
          (if js_lt (Fin 0) c0 then True
           else if js_lt c0 (Fin 0) then False
           else if js_lt (Fin 6) c1 then True
           else if js_lt c1 (Fin 6) then False
           else c2 \<noteq> NaN \<and> \<not> js_lt c2 (Fin 0))"
    unfolding isValidVersion_def Let_def min_version_components
    by (simp add: element_def op_gt_def op_lt_def op_ge_def c0_def c1_def c2_def component_def)
  then show ?thesis
    unfolding c0_def [symmetric] c1_def [symmetric] c2_def [symmetric]
    using not_lt_gt_zero [of c0] not_lt_gt_six [of c1]
    by (cases c0; cases c1) auto
qed

text \<open>
  C1. For every version \<open>a.b.c\<close> (integers in decimal) the check against the minimum
  0.6.0 accepts exactly when \<open>a > 0\<close>, or \<open>a = 0\<close> and \<open>b > 6\<close>, or \<open>a = 0\<close>, \<open>b = 6\<close> and
  \<open>c \<ge> 0\<close>. In particular the minimum itself is accepted, a greater or equal patch at
  0.6 is accepted, a greater minor at major 0 is accepted whatever the patch, and a
  lesser major is rejected whatever the minor and the patch.
\<close>

theorem C1_version_check:
  "(isValidVersion (version_string a b c)
      \<longleftrightarrow> 0 < a \<or> (a = 0 \<and> 6 < b) \<or> (a = 0 \<and> b = 6 \<and> 0 \<le> c))
   \<and> isValidVersion ServerMinVersion
   \<and> (0 \<le> c \<longrightarrow> isValidVersion (version_string 0 6 c))
   \<and> (6 < b \<longrightarrow> isValidVersion (version_string 0 b c))
   \<and> (a < 0 \<longrightarrow> \<not> isValidVersion (version_string a b c))"
proof -
  have m: "ServerMinVersion = version_string 0 6 0"
    by (simp add: ServerMinVersion_def version_string_def decimal_def decimal_nat.simps)
  show ?thesis unfolding m by (simp add: isValidVersion_version_string)
qed

theorem C1_version_check_witness:
  "version_string (- 1) 7 0 = ''-1.7.0'' \<and> \<not> isValidVersion ''-1.7.0''
   \<and> version_string 0 7 0 = ''0.7.0'' \<and> isValidVersion ''0.7.0''
   \<and> version_string 0 6 0 = ''0.6.0'' \<and> isValidVersion ''0.6.0''
   \<and> version_string 0 5 9 = ''0.5.9'' \<and> \<not> isValidVersion ''0.5.9''"
proof -
  have s: "version_string (- 1) 7 0 = ''-1.7.0''" "version_string 0 7 0 = ''0.7.0''"
    "version_string 0 6 0 = ''0.6.0''" "version_string 0 5 9 = ''0.5.9''"
    by (simp_all add: version_string_def decimal_def decimal_nat.simps)
  show ?thesis
    using C1_version_check [of "- 1" 7 0] C1_version_check [of 0 7 0]
      C1_version_check [of 0 6 0] C1_version_check [of 0 5 9]
    unfolding s by simp
qed

section \<open>The version check on other strings\<close>

lemma split_examples:
  "split CHR ''.'' ''1.x.0'' = [''1'', ''x'', ''0'']"
  "split CHR ''.'' ''0.x.0'' = [''0'', ''x'', ''0'']"
  "split CHR ''.'' ''0.6'' = [''0'', ''6'']"
  "split CHR ''.'' ''abc'' = [''abc'']"
  "split CHR ''.'' ''1'' = [''1'']"
  by simp_all

lemma isValidVersion_examples: "isValidVersion ''0.6.0''" "\<not> isValidVersion ''0.5.9''"
proof -
  have "''0.6.0'' = version_string 0 6 0" "''0.5.9'' = version_string 0 5 9"
    by (simp_all add: version_string_def decimal_def decimal_nat.simps)
  then show "isValidVersion ''0.6.0''" "\<not> isValidVersion ''0.5.9''"
    by (simp_all add: isValidVersion_version_string)
qed

text \<open>
  C9, as amended. The check accepts a version exactly when its first component exceeds 0,
  or the first is 0 or not a number and the second exceeds 6, or the first is 0 or not a
  number, the second is 6 or not a number, and the third is a number that is at least 0
  (a missing component is not a number). So a version whose third component is missing or
  not numeric is rejected unless an earlier component exceeds the minimum's, and a response
  carrying such a header fails with the outdated-client error. A first or second
  component that is not numeric does not reject the version by itself.
\<close>

theorem C9_malformed_version:
  "(isValidVersion v \<longleftrightarrow>
      js_lt (Fin 0) (component v 0)
      \<or> (component v 0 \<in> {NaN, Fin 0} \<and> js_lt (Fin 6) (component v 1))
      \<or> (component v 0 \<in> {NaN, Fin 0} \<and> component v 1 \<in> {NaN, Fin 6}
          \<and> component v 2 \<noteq> NaN \<and> \<not> js_lt (component v 2) (Fin 0)))
   \<and> (component v 2 = NaN \<and> \<not> js_lt (Fin 0) (component v 0) \<and> \<not> js_lt (Fin 6) (component v 1)
      \<longrightarrow> \<not> isValidVersion v
          \<and> (\<forall>env this endpoint method b w resp.
                fetch env (build_request w this endpoint method b) = Resolved resp
                \<and> headers_get resp ''Lokal-Server-Version'' = Some v
                \<longrightarrow> fst (request env this endpoint method b w) = Inl outdated))"
proof -
  have r: "\<not> isValidVersion v \<Longrightarrow>
        (\<forall>env this endpoint method b w resp.
                fetch env (build_request w this endpoint method b) = Resolved resp
                \<and> headers_get resp ''Lokal-Server-Version'' = Some v
                \<longrightarrow> fst (request env this endpoint method b w) = Inl outdated)"
    by (simp add: request_def Let_def)
  have n: "component v 2 = NaN \<and> \<not> js_lt (Fin 0) (component v 0) \<and> \<not> js_lt (Fin 6) (component v 1)
      \<Longrightarrow> \<not> isValidVersion v"
    unfolding isValidVersion_components by auto
  show ?thesis using r n isValidVersion_components [of v] by blast
qed

theorem C9_malformed_version_witness:
  "component ''0.6'' 0 = Fin 0 \<and> component ''0.6'' 1 = Fin 6 \<and> component ''0.6'' 2 = NaN
   \<and> \<not> isValidVersion ''0.6''
   \<and> component ''abc'' 0 = NaN \<and> component ''abc'' 1 = NaN \<and> component ''abc'' 2 = NaN
   \<and> \<not> isValidVersion ''abc''"
proof -
  have a: "component ''0.6'' 0 = Fin 0" "component ''0.6'' 1 = Fin 6" "component ''0.6'' 2 = NaN"
    by (simp_all add: component_def element_def split_examples Number_examples)
  have b: "component ''abc'' 0 = NaN" "component ''abc'' 1 = NaN" "component ''abc'' 2 = NaN"
    by (simp_all add: component_def element_def split_examples Number_not_numeric)
  have "\<not> isValidVersion ''0.6''"
    using C9_malformed_version [of "''0.6''"] a by simp
  moreover have "\<not> isValidVersion ''abc''"
    using C9_malformed_version [of "''abc''"] b by simp
  ultimately show ?thesis using a b by simp
qed

text \<open>
  C9 as stated fails: the second component of 1.x.0 is not numeric and 1 has a single
  component, and both versions are accepted.
\<close>

theorem C9_counterexample:
  "map Number (split CHR ''.'' ''1.x.0'') = [Fin 1, NaN, Fin 0] \<and> isValidVersion ''1.x.0''
   \<and> split CHR ''.'' ''1'' = [''1''] \<and> isValidVersion ''1''"
  by (simp add: isValidVersion_components component_def element_def split_examples
        Number_examples Number_not_numeric)

section \<open>Requests\<close>

lemma request_fetched:
  "fetched (snd (request env this endpoint method b w))
     = fetched w @ [build_request w this endpoint method b]"
  by (simp add: request_def Let_def split: fetch_outcome.splits thrown.splits option.splits sum.splits)

lemma request_tunnels:
  "tunnels (snd (request env this endpoint method b w)) = tunnels w"
  by (simp add: request_def Let_def split: fetch_outcome.splits thrown.splits option.splits sum.splits)

lemma request_clients:
  "clients (snd (request env this endpoint method b w)) = clients w"
  by (simp add: request_def Let_def split: fetch_outcome.splits thrown.splits option.splits sum.splits)

lemma fresh_world:
  "tunnels fresh handle = Tunnel_new client"
  "clients fresh client = Lokal_new default_baseURL"
  "fetched fresh = []"
  "console fresh = []"
  by (simp_all add: fresh_def newTunnel_def new_Lokal_def empty_world_def client_def handle_def)

lemma fetch_answering:
  "fetch (answering v k j) req
     = Resolved \<lparr>headers_get = (\<lambda>h. if h = ''Lokal-Server-Version'' then v else None),
                 ok = k, json = j\<rparr>"
  by (simp add: answering_def)

lemma request_answering:
  "request (answering (Some ''0.6.0'') True (Inr d)) this endpoint method b w
     = (Inr (Some d), w\<lparr>fetched := fetched w @ [build_request w this endpoint method b]\<rparr>)"
  by (simp add: request_def answering_def Let_def isValidVersion_examples)

text \<open>
  C6. When a response is received whose \<open>Lokal-Server-Version\<close> header is absent, or
  present with a version the check rejects, \<open>request\<close> fails with the outdated-client
  error, whatever the status and the body of the response: replacing them changes nothing.
\<close>

theorem C6_version_gate:
  assumes "fetch env (build_request w this endpoint method b) = Resolved resp"
      and "headers_get resp ''Lokal-Server-Version'' = None
           \<or> (\<exists>v. headers_get resp ''Lokal-Server-Version'' = Some v \<and> \<not> isValidVersion v)"
  shows "request env this endpoint method b w
           = (Inl outdated, w\<lparr>fetched := fetched w @ [build_request w this endpoint method b]\<rparr>)
         \<and> (\<forall>k j. request (env\<lparr>fetch := (\<lambda>r. Resolved (resp\<lparr>ok := k, json := j\<rparr>))\<rparr>)
                     this endpoint method b w
                   = request env this endpoint method b w)"
  using assms by (auto simp: request_def Let_def)

theorem C6_version_gate_witness:
  "fst (request (answering None True (reply True None [example_entry])) client
          ''/api/tunnel/start'' ''POST'' (Some handle) fresh) = Inl outdated
   \<and> fst (request (answering (Some ''0.5.9'') True (reply True None [example_entry])) client
          ''/api/tunnel/start'' ''POST'' (Some handle) fresh) = Inl outdated
   \<and> outdated = Error ''Your local client might be outdated, please update''"
proof -
  let ?j = "reply True None [example_entry]"
  have a: "headers_get \<lparr>headers_get = (\<lambda>h. if h = ''Lokal-Server-Version'' then None else None),
                 ok = True, json = ?j\<rparr> ''Lokal-Server-Version'' = None
           \<or> (\<exists>v. headers_get \<lparr>headers_get = (\<lambda>h. if h = ''Lokal-Server-Version'' then None else None),
                 ok = True, json = ?j\<rparr> ''Lokal-Server-Version'' = Some v \<and> \<not> isValidVersion v)"
    by simp
  have b: "headers_get \<lparr>headers_get = (\<lambda>h. if h = ''Lokal-Server-Version'' then Some ''0.5.9'' else None),
                 ok = True, json = ?j\<rparr> ''Lokal-Server-Version'' = None
           \<or> (\<exists>v. headers_get \<lparr>headers_get = (\<lambda>h. if h = ''Lokal-Server-Version'' then Some ''0.5.9'' else None),
                 ok = True, json = ?j\<rparr> ''Lokal-Server-Version'' = Some v \<and> \<not> isValidVersion v)"
    by (simp add: isValidVersion_examples)
  show ?thesis
    using C6_version_gate [of "answering None True ?j" fresh client "''/api/tunnel/start''"
          "''POST''" "Some handle", OF fetch_answering a]
      C6_version_gate [of "answering (Some ''0.5.9'') True ?j" fresh client "''/api/tunnel/start''"
          "''POST''" "Some handle", OF fetch_answering b]
    by (simp add: outdated_def)
qed

text \<open>
  C7. When \<open>fetch\<close> rejects, \<open>request\<close> does not throw: it returns \<open>undefined\<close>, and
  when the rejection is an \<open>Error\<close> instance (as every network failure of \<open>fetch\<close> is) it
  logs the hint that no client is running, with the error's message.
\<close>

theorem C7_transport_failure:
  assumes "fetch env (build_request w this endpoint method b) = Rejected err"
  shows "fst (request env this endpoint method b w) = Inr None
         \<and> (\<forall>msg. err = ErrorInstance msg \<longrightarrow>
               console (snd (request env this endpoint method b w))
                 = console w @ [Console_error [Plain not_running_hint, Plain msg]])"
  using assms by (auto simp: request_def Let_def split: thrown.splits)

theorem C7_transport_failure_witness:
  "fst (request unreachable client ''/api/tunnel/start'' ''POST'' (Some handle) fresh) = Inr None
   \<and> console (snd (request unreachable client ''/api/tunnel/start'' ''POST'' (Some handle) fresh))
       = [Console_error [Plain not_running_hint, Plain ''fetch failed'']]"
proof -
  have f: "fetch unreachable (build_request fresh client ''/api/tunnel/start'' ''POST'' (Some handle))
             = Rejected (ErrorInstance ''fetch failed'')"
    by (simp add: unreachable_def)
  show ?thesis using C7_transport_failure [OF f] by (simp add: fresh_world)
qed

section \<open>The fluent setters\<close>

text \<open>
  C8. \<open>setPublicAddress\<close> and \<open>setName\<close> store the empty string for \<open>undefined\<close>,
  \<open>null\<close> and the empty string, and store a non-empty string unchanged.
\<close>

theorem C8_falsy_arguments:
  "(v \<in> {Undefined, Null, Str []} \<longrightarrow>
      address_public (tunnels (snd (setPublicAddress this v w)) this) = Some []
      \<and> name (tunnels (snd (setName this v w)) this) = [])
   \<and> (s \<noteq> [] \<longrightarrow>
      address_public (tunnels (snd (setPublicAddress this (Str s) w)) this) = Some s
      \<and> name (tunnels (snd (setName this (Str s) w)) this) = s)"
  by (auto simp: setPublicAddress_def setName_def update_tunnel_def or_empty_def)

theorem C8_falsy_arguments_witness:
  "address_public (tunnels (snd (setPublicAddress handle Undefined fresh)) handle) = Some []
   \<and> name (tunnels (snd (setName handle Undefined fresh)) handle) = []
   \<and> address_public (tunnels (snd (setPublicAddress handle (Str ''my-app'') fresh)) handle) = Some ''my-app''
   \<and> name (tunnels (snd (setName handle (Str ''my-app'') fresh)) handle) = ''my-app''"
  using C8_falsy_arguments [of Undefined handle fresh "''my-app''"] by simp

lemma endsWith_iff: "endsWith s e \<longleftrightarrow> (\<exists>p. s = p @ e)"
proof
  assume "endsWith s e"
  then have "s = take (length s - length e) s @ e"
    by (metis append_take_drop_id endsWith_def)
  then show "\<exists>p. s = p @ e" ..
next
  assume "\<exists>p. s = p @ e"
  then show "endsWith s e" by (auto simp: endsWith_def)
qed

lemma replace_local_suffix: "replace_local (p @ ''.local'') = p"
  by (simp add: replace_local_def endsWith_def)

lemma replace_local_other: "\<not> (\<exists>p. s = p @ ''.local'') \<Longrightarrow> replace_local s = s"
  by (simp add: replace_local_def endsWith_iff)

lemma stored_LAN:
  "s \<noteq> [] \<Longrightarrow>
   address_mdns (tunnels (snd (setLANAddress this (Str s) w)) this) = Some (replace_local s)"
  by (simp add: setLANAddress_def update_tunnel_def)

lemma getLANAddress_cases:
  "getLANAddress this w =
     (case address_mdns (tunnels w this) of
        None \<Rightarrow> Inl (Error ''LAN address is not being set'')
      | Some a \<Rightarrow> if a = [] then Inl (Error ''LAN address is not being set'')
                  else Inr (if \<exists>q. a = q @ ''.local'' then a else a @ ''.local''))"
  by (simp add: getLANAddress_def endsWith_iff split: option.splits)

text \<open>
  C5, as amended. For a non-empty \<open>s\<close>, \<open>setLANAddress(s)\<close> stores \<open>s\<close> without one
  trailing ".local". When the stored value is not empty, that is when \<open>s\<close> is not ".local"
  itself, \<open>getLANAddress()\<close> then returns it with ".local" appended unless it already ends
  with it. \<open>getLANAddress()\<close> fails when the stored address is empty or unset, which
  includes the handle after \<open>setLANAddress(".local")\<close>.
\<close>

theorem C5_lan_address:
  assumes "s \<noteq> []"
  shows "(\<forall>p. s = p @ ''.local'' \<longrightarrow>
            address_mdns (tunnels (snd (setLANAddress this (Str s) w)) this) = Some p)
       \<and> ((\<nexists>p. s = p @ ''.local'') \<longrightarrow>
            address_mdns (tunnels (snd (setLANAddress this (Str s) w)) this) = Some s)
       \<and> (\<forall>a. address_mdns (tunnels (snd (setLANAddress this (Str s) w)) this) = Some a \<and> a \<noteq> []
            \<longrightarrow> getLANAddress this (snd (setLANAddress this (Str s) w))
                  = Inr (if \<exists>q. a = q @ ''.local'' then a else a @ ''.local''))
       \<and> (s \<noteq> ''.local'' \<longrightarrow>
            (\<exists>a. address_mdns (tunnels (snd (setLANAddress this (Str s) w)) this) = Some a \<and> a \<noteq> []))
       \<and> (s = ''.local'' \<longrightarrow>
            address_mdns (tunnels (snd (setLANAddress this (Str s) w)) this) = Some []
            \<and> getLANAddress this (snd (setLANAddress this (Str s) w))
                = Inl (Error ''LAN address is not being set''))
       \<and> (address_mdns (tunnels w this) \<in> {None, Some []} \<longrightarrow>
            getLANAddress this w = Inl (Error ''LAN address is not being set''))"
proof -
  let ?w = "snd (setLANAddress this (Str s) w)"
  have st: "address_mdns (tunnels ?w this) = Some (replace_local s)"
    using assms by (rule stored_LAN)
  have a: "\<forall>p. s = p @ ''.local'' \<longrightarrow> address_mdns (tunnels ?w this) = Some p"
    using st by (auto simp: replace_local_suffix)
  have b: "(\<nexists>p. s = p @ ''.local'') \<longrightarrow> address_mdns (tunnels ?w this) = Some s"
    using replace_local_other [of s] by (simp add: st)
  have c: "\<forall>a. address_mdns (tunnels ?w this) = Some a \<and> a \<noteq> []
            \<longrightarrow> getLANAddress this ?w = Inr (if \<exists>q. a = q @ ''.local'' then a else a @ ''.local'')"
    by (simp add: getLANAddress_cases)
  have d: "s \<noteq> ''.local'' \<longrightarrow> (\<exists>a. address_mdns (tunnels ?w this) = Some a \<and> a \<noteq> [])"
  proof
    assume n: "s \<noteq> ''.local''"
    show "\<exists>a. address_mdns (tunnels ?w this) = Some a \<and> a \<noteq> []"
    proof (cases "\<exists>p. s = p @ ''.local''")
      case True
      then obtain p where p: "s = p @ ''.local''" ..
      with n have "p \<noteq> []" by auto
      then show ?thesis using p st by (auto simp: replace_local_suffix)
    next
      case False
      then show ?thesis using assms b by simp
    qed
  qed
  have e: "s = ''.local'' \<longrightarrow> address_mdns (tunnels ?w this) = Some []
            \<and> getLANAddress this ?w = Inl (Error ''LAN address is not being set'')"
    using replace_local_suffix [of "[]"] st by (auto simp: getLANAddress_cases)
  have f: "address_mdns (tunnels w this) \<in> {None, Some []} \<longrightarrow>
            getLANAddress this w = Inl (Error ''LAN address is not being set'')"
    by (auto simp: getLANAddress_cases)
  show ?thesis by (intro conjI) (rule a, rule b, rule c, rule d, rule e, rule f)
qed

theorem C5_lan_address_witness:
  "address_mdns (tunnels (snd (setLANAddress handle (Str ''foo.local'') fresh)) handle) = Some ''foo''
   \<and> getLANAddress handle (snd (setLANAddress handle (Str ''foo.local'') fresh)) = Inr ''foo.local''
   \<and> getLANAddress handle fresh = Inl (Error ''LAN address is not being set'')"
proof -
  have n: "''foo.local'' \<noteq> []" by simp
  have u: "address_mdns (tunnels fresh handle) \<in> {None, Some []}" by (simp add: fresh_world Tunnel_new_def)
  have s: "''foo.local'' = ''foo'' @ ''.local''" by simp
  have q: "\<not> (\<exists>q. ''foo'' = q @ ''.local'')" by simp
  note th = C5_lan_address [OF n, of handle fresh]
  have a: "address_mdns (tunnels (snd (setLANAddress handle (Str ''foo.local'') fresh)) handle) = Some ''foo''"
    using th [THEN conjunct1, THEN spec, of "''foo''"] by simp
  have c: "getLANAddress handle (snd (setLANAddress handle (Str ''foo.local'') fresh)) = Inr ''foo.local''"
    using th [THEN conjunct2, THEN conjunct2, THEN conjunct1, THEN spec, of "''foo''"] a q
    by simp
  have f: "getLANAddress handle fresh = Inl (Error ''LAN address is not being set'')"
    using th [THEN conjunct2, THEN conjunct2, THEN conjunct2, THEN conjunct2, THEN conjunct2] u
    by blast
  from a c f show ?thesis by simp
qed

text \<open>
  C5 as stated fails at the non-empty input ".local": the empty string is stored and
  \<open>getLANAddress()\<close> fails instead of returning an address.
\<close>

theorem C5_counterexample:
  "''.local'' \<noteq> []
   \<and> address_mdns (tunnels (snd (setLANAddress handle (Str ''.local'') fresh)) handle) = Some []
   \<and> getLANAddress handle (snd (setLANAddress handle (Str ''.local'') fresh))
       = Inl (Error ''LAN address is not being set'')"
  by (simp add: setLANAddress_def update_tunnel_def replace_local_def endsWith_def
        getLANAddress_def)

lemmas setter_defs =
  setLocalAddress_def setTunnelType_def setInspection_def setLANAddress_def
  setPublicAddress_def setName_def ignoreDuplicate_def showStartupBanner_def

lemma call_returns_this: "fst (call c this w) = this"
  by (cases c) (simp_all add: setter_defs split: jsarg.splits)

lemma call_frame: "only_field_changed this (target c) w (snd (call c this w))"
  by (cases c)
     (simp_all add: setter_defs only_field_changed_def same_fields_except_def update_tunnel_def
        split: jsarg.splits)

lemma call_commute:
  assumes "target c \<noteq> target c'"
  shows "snd (call c' this (snd (call c this w))) = snd (call c this (snd (call c' this w)))"
  using assms
  by (cases c; cases c'; cases "tunnels w this")
     (simp_all add: setter_defs update_tunnel_def fun_upd_twist split: jsarg.splits)

lemma call_commute_other:
  assumes "this \<noteq> other"
  shows "snd (call c' other (snd (call c this w))) = snd (call c this (snd (call c' other w)))"
  using assms
  by (cases c; cases c'; cases "tunnels w this"; cases "tunnels w other")
     (simp_all add: setter_defs update_tunnel_def fun_upd_twist split: jsarg.splits)

lemma chain_fold:
  "chain cs this w = (this, fold (\<lambda>c w. snd (call c this w)) cs w)"
proof (induction cs arbitrary: w)
  case Nil
  then show ?case by simp
next
  case (Cons c cs)
  obtain r w' where cw: "call c this w = (r, w')" by (cases "call c this w")
  then have "r = this" using call_returns_this [of c this w] by simp
  then show ?case using Cons cw by simp
qed

lemma chain_permute:
  assumes d: "distinct (map target cs)" and p: "mset cs = mset cs'"
  shows "chain cs this w = chain cs' this w"
proof -
  let ?f = "\<lambda>c w. snd (call c this w)"
  have "fold ?f cs = fold ?f cs'"
  proof (rule fold_multiset_equiv [OF _ p])
    fix x y assume xy: "x \<in> set cs" "y \<in> set cs"
    show "?f x \<circ> ?f y = ?f y \<circ> ?f x"
    proof (cases "x = y")
      case True
      then show ?thesis by simp
    next
      case False
      have "inj_on target (set cs)" using d by (simp add: distinct_map)
      then have "target x \<noteq> target y" using xy False by (auto dest: inj_onD)
      then show ?thesis using call_commute [of y x this] by (auto simp: fun_eq_iff)
    qed
  qed
  then show ?thesis by (simp add: chain_fold)
qed

text \<open>
  C10. Each of the eight fluent setters returns the handle it was called on and changes
  nothing but its own field of that handle. Two calls on different fields commute, so a
  chain of calls on pairwise different fields gives the same result in any order.
\<close>

theorem C10_fluent_setters:
  "fst (call c this w) = this
   \<and> only_field_changed this (target c) w (snd (call c this w))
   \<and> (target c \<noteq> target c' \<longrightarrow>
        snd (call c' this (snd (call c this w))) = snd (call c this (snd (call c' this w))))
   \<and> (distinct (map target cs) \<and> mset cs = mset cs' \<longrightarrow> chain cs this w = chain cs' this w)"
  using call_returns_this [of c this w] call_frame [of this c w] call_commute [of c c' this w]
    chain_permute [of cs cs' this w] by blast

theorem C10_fluent_setters_witness:
  "chain [SetName (Str ''web''), SetInspection True, ShowStartupBanner] handle fresh
     = chain [ShowStartupBanner, SetName (Str ''web''), SetInspection True] handle fresh
   \<and> fst (call (SetName (Str ''web'')) handle fresh) = handle
   \<and> local_address (tunnels (snd (call (SetName (Str ''web'')) handle fresh)) handle)
       = local_address (tunnels fresh handle)"
proof -
  have d: "distinct (map target [SetName (Str ''web''), SetInspection True, ShowStartupBanner])
           \<and> mset [SetName (Str ''web''), SetInspection True, ShowStartupBanner]
             = mset [ShowStartupBanner, SetName (Str ''web''), SetInspection True]"
    by simp
  note th = C10_fluent_setters [of "SetName (Str ''web'')" handle fresh "SetInspection True"
      "[SetName (Str ''web''), SetInspection True, ShowStartupBanner]"
      "[ShowStartupBanner, SetName (Str ''web''), SetInspection True]"]
  from th d have a: "chain [SetName (Str ''web''), SetInspection True, ShowStartupBanner] handle fresh
     = chain [ShowStartupBanner, SetName (Str ''web''), SetInspection True] handle fresh"
    by blast
  from th have b: "fst (call (SetName (Str ''web'')) handle fresh) = handle" by blast
  from th have "only_field_changed handle F_name fresh (snd (call (SetName (Str ''web'')) handle fresh))"
    by simp
  then have c: "local_address (tunnels (snd (call (SetName (Str ''web'')) handle fresh)) handle)
       = local_address (tunnels fresh handle)"
    by (simp add: only_field_changed_def same_fields_except_def)
  from a b c show ?thesis by (intro conjI)
qed

section \<open>Creating a tunnel\<close>

text \<open>
  C2. When the LAN address and the public address of a handle are both empty or unset,
  \<open>create\<close> fails and leaves the world as it was: the handle is unchanged and nothing was
  sent, whereas every call of \<open>request\<close> sends one request.
\<close>

theorem C2_create_without_address:
  assumes "address_mdns (tunnels w this) \<in> {None, Some []}"
      and "address_public (tunnels w this) \<in> {None, Some []}"
  shows "create env this w
           = (Inl (Error ''Please enable either LAN address or random/custom public URL''), w)
         \<and> (\<forall>l endpoint method b w'.
               length (fetched (snd (request env l endpoint method b w'))) = Suc (length (fetched w')))"
  using assms by (auto simp: create_def request_fetched)

theorem C2_create_without_address_witness:
  "address_mdns (tunnels fresh handle) \<in> {None, Some []}
   \<and> address_public (tunnels fresh handle) \<in> {None, Some []}
   \<and> create unreachable handle fresh
           = (Inl (Error ''Please enable either LAN address or random/custom public URL''), fresh)"
proof -
  have a: "address_mdns (tunnels fresh handle) \<in> {None, Some []}"
    by (simp add: fresh_world Tunnel_new_def)
  have b: "address_public (tunnels fresh handle) \<in> {None, Some []}"
    by (simp add: fresh_world Tunnel_new_def)
  show ?thesis using a b C2_create_without_address [OF a b, of unreachable] by simp
qed

lemma or_else_case:
  "or_else m d = (case m of None \<Rightarrow> d | Some x \<Rightarrow> if x = [] then d else x)"
  by (cases m) simp_all

text \<open>
  C4. When the request of \<open>create\<close> yields a reply: if it reports success with a non-empty
  data list, \<open>create\<close> returns the handle, whose public address, LAN address and id are
  those of the first entry and whose other fields are unchanged; otherwise \<open>create\<close>
  fails with the message of the reply, or a generic message when there is none, and no
  handle has changed.
\<close>

theorem C4_create:
  assumes pre: "truthy_field (address_mdns (tunnels w this))
                \<or> truthy_field (address_public (tunnels w this))"
      and req: "request env (lokal (tunnels w this)) ''/api/tunnel/start'' ''POST'' (Some this) w
                  = (Inr (Some resp), w1)"
  shows "(success resp \<and> data resp \<noteq> [] \<longrightarrow>
            fst (create env this w) = Inr this
            \<and> tunnels (snd (create env this w))
                = (tunnels w)(this := (tunnels w this)
                    \<lparr>address_public := e_address_public (hd (data resp)),
                     address_mdns := e_address_mdns (hd (data resp)),
                     tunnel_id := e_id (hd (data resp))\<rparr>)
            \<and> clients (snd (create env this w)) = clients w)
       \<and> (\<not> (success resp \<and> data resp \<noteq> []) \<longrightarrow>
            create env this w
              = (Inl (Error (case message resp of
                               None \<Rightarrow> ''Tunnel creation failing''
                             | Some m \<Rightarrow> if m = [] then ''Tunnel creation failing'' else m)), w1)
            \<and> tunnels w1 = tunnels w)"
proof -
  have t1: "tunnels w1 = tunnels w" "clients w1 = clients w"
    using request_tunnels [of env "lokal (tunnels w this)" "''/api/tunnel/start''" "''POST''" "Some this" w]
      request_clients [of env "lokal (tunnels w this)" "''/api/tunnel/start''" "''POST''" "Some this" w]
      req by simp_all
  have ok: "success resp \<and> data resp \<noteq> [] \<longrightarrow>
            fst (create env this w) = Inr this
            \<and> tunnels (snd (create env this w))
                = (tunnels w)(this := (tunnels w this)
                    \<lparr>address_public := e_address_public (hd (data resp)),
                     address_mdns := e_address_mdns (hd (data resp)),
                     tunnel_id := e_id (hd (data resp))\<rparr>)
            \<and> clients (snd (create env this w)) = clients w"
    using pre req t1
    by (auto simp: create_def Let_def update_tunnel_def showBanner_def hd_conv_nth)
  have ko: "\<not> (success resp \<and> data resp \<noteq> []) \<longrightarrow>
            create env this w
              = (Inl (Error (case message resp of
                               None \<Rightarrow> ''Tunnel creation failing''
                             | Some m \<Rightarrow> if m = [] then ''Tunnel creation failing'' else m)), w1)
            \<and> tunnels w1 = tunnels w"
    using pre req t1 by (auto simp: create_def or_else_case)
  show ?thesis by (intro conjI) (rule ok, rule ko)
qed

theorem C4_create_witness:
  "fst (create (answering (Some ''0.6.0'') True (reply True None [example_entry])) handle
          (snd (setPublicAddress handle (Str ''my-app'') fresh))) = Inr handle
   \<and> tunnel_id (tunnels (snd (create (answering (Some ''0.6.0'') True (reply True None [example_entry])) handle
          (snd (setPublicAddress handle (Str ''my-app'') fresh)))) handle) = Some ''abc''
   \<and> address_public (tunnels (snd (create (answering (Some ''0.6.0'') True (reply True None [example_entry])) handle
          (snd (setPublicAddress handle (Str ''my-app'') fresh)))) handle) = Some ''my-app.example.com''
   \<and> fst (create (answering (Some ''0.6.0'') True (reply False (Some ''duplicate'') [])) handle
          (snd (setPublicAddress handle (Str ''my-app'') fresh))) = Inl (Error ''duplicate'')"
proof -
  define w where "w = snd (setPublicAddress handle (Str ''my-app'') fresh)"
  define r1 where "r1 = \<lparr>success = True, message = None, data = [example_entry]\<rparr>"
  define r2 where "r2 = \<lparr>success = False, message = Some ''duplicate'', data = []\<rparr>"
  have pre: "truthy_field (address_mdns (tunnels w handle)) \<or> truthy_field (address_public (tunnels w handle))"
    by (simp add: w_def setPublicAddress_def update_tunnel_def or_empty_def)
  note q1 = request_answering [of r1 "lokal (tunnels w handle)" "''/api/tunnel/start''" "''POST''" "Some handle" w]
  note q2 = request_answering [of r2 "lokal (tunnels w handle)" "''/api/tunnel/start''" "''POST''" "Some handle" w]
  have a: "fst (create (answering (Some ''0.6.0'') True (Inr r1)) handle w) = Inr handle
     \<and> tunnel_id (tunnels (snd (create (answering (Some ''0.6.0'') True (Inr r1)) handle w)) handle) = Some ''abc''
     \<and> address_public (tunnels (snd (create (answering (Some ''0.6.0'') True (Inr r1)) handle w)) handle)
          = Some ''my-app.example.com''"
    using C4_create [OF pre q1] by (simp add: r1_def example_entry_def)
  have b: "fst (create (answering (Some ''0.6.0'') True (Inr r2)) handle w) = Inl (Error ''duplicate'')"
    using C4_create [OF pre q2] by (simp add: r2_def)
  show ?thesis using a b unfolding w_def r1_def r2_def reply_def by simp
qed

section \<open>Reading the public address before the port is assigned\<close>

lemma updatePublicURLPort_fetched:
  "tunnel_id (tunnels w this) = Some i \<Longrightarrow> i \<noteq> [] \<Longrightarrow>
   fetched (snd (updatePublicURLPort env this w))
     = fetched w @ [build_request w (lokal (tunnels w this)) (''/api/tunnel/info/'' @ i) ''GET'' None]"
proof -
  assume i: "tunnel_id (tunnels w this) = Some i" "i \<noteq> []"
  obtain r w1 where q: "request env (lokal (tunnels w this)) (''/api/tunnel/info/'' @ i) ''GET'' None w = (r, w1)"
    by (cases "request env (lokal (tunnels w this)) (''/api/tunnel/info/'' @ i) ''GET'' None w")
  have f: "fetched w1 = fetched w @ [build_request w (lokal (tunnels w this)) (''/api/tunnel/info/'' @ i) ''GET'' None]"
    using request_fetched [of env "lokal (tunnels w this)" "''/api/tunnel/info/'' @ i" "''GET''" None w] q
    by simp
  show ?thesis using i q f
    by (auto simp: updatePublicURLPort_def update_tunnel_def split: sum.splits option.splits)
qed

lemma getPublicAddress_pending:
  assumes "address_public (tunnels w this) = Some a" "a \<noteq> []"
      and "tunnel_type (tunnels w this) \<noteq> HTTP" "\<not> includes_str a CHR '':''"
  shows "getPublicAddress env this w =
           (case updatePublicURLPort env this w of
              (Inl e, w1) \<Rightarrow> (Inl e, w1)
            | (Inr u, w1) \<Rightarrow> (Inl not_yet_assigned, w1))"
  using assms by (simp add: getPublicAddress_def)

text \<open>
  C3, as amended. On a handle with a non-empty public address without ':' and a type other
  than HTTP, \<open>getPublicAddress()\<close> always fails. Without an id it fails with "Tunnel ID
  is not set" and sends nothing. With an id it sends exactly one GET to the tunnel-info
  endpoint of that id; it fails with the "not yet assigned" error when the refresh
  succeeded (and the refreshed address is stored), and with the error of the refresh
  otherwise: "Could not get tunnel info" for a reply without success or data, "Could not
  get assigned port" for an address still without ':', and the error of the request when
  the request failed.
\<close>

theorem C3_public_address_pending:
  assumes pa: "address_public (tunnels w this) = Some a" "a \<noteq> []"
      and ty: "tunnel_type (tunnels w this) \<noteq> HTTP"
      and np: "\<not> includes_str a CHR '':''"
  shows "(\<exists>e. fst (getPublicAddress env this w) = Inl e)
       \<and> (tunnel_id (tunnels w this) \<in> {None, Some []} \<longrightarrow>
            getPublicAddress env this w = (Inl (Error ''Tunnel ID is not set''), w))
       \<and> (\<forall>i. tunnel_id (tunnels w this) = Some i \<and> i \<noteq> [] \<longrightarrow>
            fetched (snd (getPublicAddress env this w))
              = fetched w @ [\<lparr>url = baseURL (clients w (lokal (tunnels w this))) @ ''/api/tunnel/info/'' @ i,
                              http_method = ''GET'',
                              headers = request_headers (clients w (lokal (tunnels w this))),
                              body = None\<rparr>])
       \<and> (\<forall>i resp w1.
            tunnel_id (tunnels w this) = Some i \<and> i \<noteq> []
            \<and> request env (lokal (tunnels w this)) (''/api/tunnel/info/'' @ i) ''GET'' None w
                = (Inr (Some resp), w1)
            \<longrightarrow> (\<not> success resp \<or> data resp = [] \<longrightarrow>
                   getPublicAddress env this w = (Inl (Error ''Could not get tunnel info''), w1))
               \<and> (\<forall>p. success resp \<and> data resp \<noteq> [] \<and> e_address_public (hd (data resp)) = Some p
                    \<longrightarrow> (includes_str p CHR '':'' \<longrightarrow>
                           getPublicAddress env this w
                             = (Inl not_yet_assigned,
                                update_tunnel this (\<lambda>t. t\<lparr>address_public := Some p\<rparr>) w1))
                       \<and> (\<not> includes_str p CHR '':'' \<longrightarrow>
                           getPublicAddress env this w
                             = (Inl (Error ''Could not get assigned port''), w1))))
       \<and> (\<forall>i e w1.
            tunnel_id (tunnels w this) = Some i \<and> i \<noteq> []
            \<and> request env (lokal (tunnels w this)) (''/api/tunnel/info/'' @ i) ''GET'' None w
                = (Inl e, w1)
            \<longrightarrow> getPublicAddress env this w = (Inl e, w1))"
proof -
  note g = getPublicAddress_pending [OF pa ty np, of env]
  have a: "\<exists>e. fst (getPublicAddress env this w) = Inl e"
    unfolding g by (simp split: prod.splits sum.splits)
  have b: "tunnel_id (tunnels w this) \<in> {None, Some []} \<longrightarrow>
            getPublicAddress env this w = (Inl (Error ''Tunnel ID is not set''), w)"
    unfolding g by (auto simp: updatePublicURLPort_def)
  have c: "\<forall>i. tunnel_id (tunnels w this) = Some i \<and> i \<noteq> [] \<longrightarrow>
            fetched (snd (getPublicAddress env this w))
              = fetched w @ [\<lparr>url = baseURL (clients w (lokal (tunnels w this))) @ ''/api/tunnel/info/'' @ i,
                              http_method = ''GET'',
                              headers = request_headers (clients w (lokal (tunnels w this))),
                              body = None\<rparr>]"
  proof (intro allI impI)
    fix i assume i: "tunnel_id (tunnels w this) = Some i \<and> i \<noteq> []"
    have "snd (getPublicAddress env this w) = snd (updatePublicURLPort env this w)"
      unfolding g by (simp split: prod.splits sum.splits)
    then show "fetched (snd (getPublicAddress env this w))
              = fetched w @ [\<lparr>url = baseURL (clients w (lokal (tunnels w this))) @ ''/api/tunnel/info/'' @ i,
                              http_method = ''GET'',
                              headers = request_headers (clients w (lokal (tunnels w this))),
                              body = None\<rparr>]"
      using updatePublicURLPort_fetched [of w this i env] i by (simp add: build_request_def)
  qed
  have d: "\<forall>i resp w1.
            tunnel_id (tunnels w this) = Some i \<and> i \<noteq> []
            \<and> request env (lokal (tunnels w this)) (''/api/tunnel/info/'' @ i) ''GET'' None w
                = (Inr (Some resp), w1)
            \<longrightarrow> (\<not> success resp \<or> data resp = [] \<longrightarrow>
                   getPublicAddress env this w = (Inl (Error ''Could not get tunnel info''), w1))
               \<and> (\<forall>p. success resp \<and> data resp \<noteq> [] \<and> e_address_public (hd (data resp)) = Some p
                    \<longrightarrow> (includes_str p CHR '':'' \<longrightarrow>
                           getPublicAddress env this w
                             = (Inl not_yet_assigned,
                                update_tunnel this (\<lambda>t. t\<lparr>address_public := Some p\<rparr>) w1))
                       \<and> (\<not> includes_str p CHR '':'' \<longrightarrow>
                           getPublicAddress env this w
                             = (Inl (Error ''Could not get assigned port''), w1)))"
    unfolding g by (auto simp: updatePublicURLPort_def hd_conv_nth)
  have e: "\<forall>i e w1.
            tunnel_id (tunnels w this) = Some i \<and> i \<noteq> []
            \<and> request env (lokal (tunnels w this)) (''/api/tunnel/info/'' @ i) ''GET'' None w
                = (Inl e, w1)
            \<longrightarrow> getPublicAddress env this w = (Inl e, w1)"
    unfolding g by (auto simp: updatePublicURLPort_def)
  show ?thesis by (intro conjI) (rule a, rule b, rule c, rule d, rule e)
qed

lemma tcp_configured_handle:
  "tunnels tcp_configured handle
     = (Tunnel_new client)\<lparr>address_public := Some ''1.2.3.4'', tunnel_type := TCP\<rparr>"
  "fetched tcp_configured = []"
  "clients tcp_configured = clients fresh"
  by (simp_all add: tcp_configured_def setPublicAddress_def setTunnelType_def update_tunnel_def
        or_empty_def fresh_world)

lemma tcp_created_handle:
  "tunnels tcp_created handle
     = (Tunnel_new client)\<lparr>address_public := Some ''1.2.3.4'', tunnel_type := TCP,
         tunnel_id := Some ''abc''\<rparr>"
  "clients tcp_created = clients fresh"
  by (simp_all add: tcp_created_def create_def tcp_configured_handle request_answering reply_def
        Let_def update_tunnel_def pending_entry_def Tunnel_new_def)

theorem C3_public_address_pending_witness:
  "fst (getPublicAddress (answering (Some ''0.6.0'') True (reply True None [assigned_entry]))
          handle tcp_created)
     = Inl not_yet_assigned
   \<and> address_public (tunnels (snd (getPublicAddress
        (answering (Some ''0.6.0'') True (reply True None [assigned_entry])) handle tcp_created))
        handle)
       = Some ''1.2.3.4:5000''
   \<and> fetched (snd (getPublicAddress
        (answering (Some ''0.6.0'') True (reply True None [assigned_entry])) handle tcp_created))
       = fetched tcp_created
         @ [\<lparr>url = ''http://127.0.0.1:6174/api/tunnel/info/abc'', http_method = ''GET'',
              headers = [(''User-Agent'', ''Lokal TS - github.com/lokal-so/lokal-ts''),
                         (''Content-Type'', ''application/json'')],
              body = None\<rparr>]
   \<and> getPublicAddress unreachable handle tcp_configured
       = (Inl (Error ''Tunnel ID is not set''), tcp_configured)"
proof -
  define env where "env = answering (Some ''0.6.0'') True (reply True None [assigned_entry])"
  define r where "r = \<lparr>success = True, message = None, data = [assigned_entry]\<rparr>"
  have pa: "address_public (tunnels tcp_created handle) = Some ''1.2.3.4''" "''1.2.3.4'' \<noteq> []"
    by (simp_all add: tcp_created_handle)
  have ty: "tunnel_type (tunnels tcp_created handle) \<noteq> HTTP" by (simp add: tcp_created_handle)
  have np: "\<not> includes_str ''1.2.3.4'' CHR '':''" by (simp add: includes_str_def)
  note th = C3_public_address_pending [OF pa ty np, of env]
  have i: "tunnel_id (tunnels tcp_created handle) = Some ''abc'' \<and> ''abc'' \<noteq> []"
    by (simp add: tcp_created_handle)
  have l: "lokal (tunnels tcp_created handle) = client"
    by (simp add: tcp_created_handle Tunnel_new_def)
  have q: "request env (lokal (tunnels tcp_created handle)) (''/api/tunnel/info/'' @ ''abc'') ''GET''
             None tcp_created
             = (Inr (Some r), tcp_created\<lparr>fetched := fetched tcp_created
                  @ [build_request tcp_created client (''/api/tunnel/info/'' @ ''abc'') ''GET'' None]\<rparr>)"
    unfolding env_def reply_def r_def [symmetric] l by (rule request_answering)
  have s: "success r \<and> data r \<noteq> [] \<and> e_address_public (hd (data r)) = Some ''1.2.3.4:5000''"
    by (simp add: r_def assigned_entry_def)
  have c: "includes_str ''1.2.3.4:5000'' CHR '':''" by (simp add: includes_str_def)
  note d = th [THEN conjunct2, THEN conjunct2, THEN conjunct2, THEN conjunct1, THEN spec,
      THEN spec, THEN spec, THEN mp, OF conjI [OF conjunct1 [OF i] conjI [OF conjunct2 [OF i] q]],
      THEN conjunct2, THEN spec, THEN mp, OF s, THEN conjunct1, THEN mp, OF c]
  have pa': "address_public (tunnels tcp_configured handle) = Some ''1.2.3.4''"
    and ty': "tunnel_type (tunnels tcp_configured handle) \<noteq> HTTP"
    by (simp_all add: tcp_configured_handle)
  have n: "getPublicAddress unreachable handle tcp_configured
       = (Inl (Error ''Tunnel ID is not set''), tcp_configured)"
    using C3_public_address_pending [OF pa' pa(2) ty' np, of unreachable]
    by (simp add: tcp_configured_handle Tunnel_new_def)
  show ?thesis
    unfolding env_def [symmetric] d n
    by (simp add: update_tunnel_def build_request_def tcp_created_handle request_headers_def
          fresh_world Lokal_new_def default_baseURL_def)
qed

text \<open>
  C3 as stated fails: without an id no request is sent and the error is "Tunnel ID is not
  set"; with an id and a reply without success the error is "Could not get tunnel info".
\<close>

theorem C3_counterexample:
  "address_public (tunnels tcp_configured handle) = Some ''1.2.3.4''
   \<and> tunnel_type (tunnels tcp_configured handle) = TCP
   \<and> getPublicAddress (answering (Some ''0.6.0'') True (reply True None [assigned_entry])) handle
         tcp_configured
       = (Inl (Error ''Tunnel ID is not set''), tcp_configured)
   \<and> address_public (tunnels tcp_created handle) = Some ''1.2.3.4''
   \<and> tunnel_type (tunnels tcp_created handle) = TCP
   \<and> fst (getPublicAddress (answering (Some ''0.6.0'') True (reply False None [])) handle
            tcp_created)
       = Inl (Error ''Could not get tunnel info'')"
  by (simp add: tcp_configured_handle tcp_created_handle getPublicAddress_def includes_str_def
        updatePublicURLPort_def Tunnel_new_def request_answering reply_def)

end
